theory Spec2Isabelle
  imports
    Complex_Main
    "HOL-Library.Multiset"
    "HOL-Library.AList"
    "HOL-Library.Char_ord"
    "HOL-Library.List_Lexorder"
    "HOL-Library.Product_Lexorder"
begin

section \<open>Strings\<close>

text \<open>
  Python strings are modelled as \<open>string\<close>: the list of the bytes of their UTF-8
  encoding. \<open>strip\<close> removes every character Python counts as white space, also
  those encoded in two or three bytes. \<open>upper\<close> maps the ASCII letters and leaves
  every other byte as it is.
\<close>

text \<open>White space in one byte: tab to carriage return, 1C to 1F, and the space.\<close>

definition isspace :: "char \<Rightarrow> bool" where
  "isspace c = (c \<in> set [CHR '' '', CHR 0x09, CHR 0x0A, CHR 0x0B, CHR 0x0C, CHR 0x0D,
                           CHR 0x1C, CHR 0x1D, CHR 0x1E, CHR 0x1F])"

text \<open>White space in two bytes: U+0085 and U+00A0.\<close>

definition isspace2 :: "char \<Rightarrow> char \<Rightarrow> bool" where
  "isspace2 a b = (a = CHR 0xC2 \<and> b \<in> set [CHR 0x85, CHR 0xA0])"

text \<open>
  White space in three bytes: U+1680, U+2000 to U+200A, U+2028, U+2029, U+202F, U+205F
  and U+3000.
\<close>

definition isspace3 :: "char \<Rightarrow> char \<Rightarrow> char \<Rightarrow> bool" where
  "isspace3 a b c =
     ((a = CHR 0xE1 \<and> b = CHR 0x9A \<and> c = CHR 0x80)
      \<or> (a = CHR 0xE2 \<and> b = CHR 0x80
          \<and> c \<in> set [CHR 0x80, CHR 0x81, CHR 0x82, CHR 0x83, CHR 0x84, CHR 0x85, CHR 0x86,
                       CHR 0x87, CHR 0x88, CHR 0x89, CHR 0x8A, CHR 0xA8, CHR 0xA9, CHR 0xAF])
      \<or> (a = CHR 0xE2 \<and> b = CHR 0x81 \<and> c = CHR 0x9F)
      \<or> (a = CHR 0xE3 \<and> b = CHR 0x80 \<and> c = CHR 0x80))"

text \<open>
  Removing the white space at the front of a string; \<open>p2\<close> and \<open>p3\<close> recognise
  the characters of two and three bytes in the order the bytes are met.
\<close>

fun lstrip_by ::
  "(char \<Rightarrow> char \<Rightarrow> bool) \<Rightarrow> (char \<Rightarrow> char \<Rightarrow> char \<Rightarrow> bool) \<Rightarrow> string \<Rightarrow> string" where
  "lstrip_by p2 p3 (a # b # c # cs) =
     (if isspace a then lstrip_by p2 p3 (b # c # cs)
      else if p2 a b then lstrip_by p2 p3 (c # cs)
      else if p3 a b c then lstrip_by p2 p3 cs
      else a # b # c # cs)"
| "lstrip_by p2 p3 [a, b] =
     (if isspace a then lstrip_by p2 p3 [b] else if p2 a b then [] else [a, b])"
| "lstrip_by p2 p3 [a] = (if isspace a then [] else [a])"
| "lstrip_by p2 p3 [] = []"

definition lstrip :: "string \<Rightarrow> string" where
  "lstrip s = lstrip_by isspace2 isspace3 s"

text \<open>At the end of the string the bytes of a character are met last byte first.\<close>

definition rstrip :: "string \<Rightarrow> string" where
  "rstrip s = rev (lstrip_by (\<lambda>b a. isspace2 a b) (\<lambda>c b a. isspace3 a b c) (rev s))"

definition strip :: "string \<Rightarrow> string" where
  "strip s = rstrip (lstrip s)"

definition upper_char :: "char \<Rightarrow> char" where
  "upper_char c =
     (case map_of (zip ''abcdefghijklmnopqrstuvwxyz'' ''ABCDEFGHIJKLMNOPQRSTUVWXYZ'') c of
        Some u \<Rightarrow> u
      | None \<Rightarrow> c)"

definition upper :: "string \<Rightarrow> string" where
  "upper s = map upper_char s"

definition endswith :: "string \<Rightarrow> string \<Rightarrow> bool" where
  "endswith s suf = (length suf \<le> length s \<and> drop (length s - length suf) s = suf)"

definition startswith :: "string \<Rightarrow> string \<Rightarrow> bool" where
  "startswith s pre = (take (length pre) s = pre)"

text \<open>\<open>sub in s\<close>: the substring test of Python.\<close>

fun contains :: "string \<Rightarrow> string \<Rightarrow> bool" where
  "contains [] sub = (sub = [])"
| "contains (c # cs) sub = (startswith (c # cs) sub \<or> contains cs sub)"

text \<open>\<open>s.replace(zero-width space, '')\<close>: the zero-width space is the UTF-8 sequence E2 80 8B.\<close>

fun remove_zwsp :: "string \<Rightarrow> string" where
  "remove_zwsp (a # b # c # cs) =
     (if a = CHR 0xE2 \<and> b = CHR 0x80 \<and> c = CHR 0x8B then remove_zwsp cs
      else a # remove_zwsp (b # c # cs))"
| "remove_zwsp cs = cs"

definition digit_char :: "nat \<Rightarrow> char" where
  "digit_char d = ''0123456789'' ! d"

definition isdigit :: "char \<Rightarrow> bool" where
  "isdigit c = (c \<in> set ''0123456789'')"

text \<open>\<open>str(n)\<close> for a non-negative integer.\<close>

fun str_nat :: "nat \<Rightarrow> string" where
  "str_nat n =
     (if n < 10 then [digit_char n] else str_nat (n div 10) @ [digit_char (n mod 10)])"

declare str_nat.simps [simp del]

text \<open>The format \<open>f"{x:02d}"\<close>.\<close>

definition fmt_02d :: "nat \<Rightarrow> string" where
  "fmt_02d x = (if x < 10 then CHR ''0'' # str_nat x else str_nat x)"

text \<open>\<open>s.split('-')\<close>.\<close>

fun split_dash :: "string \<Rightarrow> string list" where
  "split_dash [] = [[]]"
| "split_dash (c # cs) =
     (if c = CHR ''-'' then [] # split_dash cs
      else (case split_dash cs of [] \<Rightarrow> [[c]] | w # ws \<Rightarrow> (c # w) # ws))"

text \<open>\<open>int(s)\<close> on a string of decimal digits (used to read a bucket key back).\<close>

definition digit_val :: "char \<Rightarrow> nat" where
  "digit_val c = (case map_of (zip ''0123456789'' [0, 1, 2, 3, 4, 5, 6, 7, 8, 9]) c of Some d \<Rightarrow> d | None \<Rightarrow> 0)"

definition int_of_str :: "string \<Rightarrow> nat" where
  "int_of_str s = foldl (\<lambda>acc c. 10 * acc + digit_val c) 0 s"

text \<open>Truthiness of an optional string argument: \<open>None\<close> and \<open>""\<close> are false.\<close>

fun truthy :: "string option \<Rightarrow> bool" where
  "truthy None = False"
| "truthy (Some s) = (s \<noteq> [])"

section \<open>Dates and timestamps\<close>

text \<open>
  A calendar date is (year, month, day); the lexicographic order of the triple is the
  chronological order. Times of day are not modelled.
\<close>

type_synonym date = "nat \<times> nat \<times> nat"

definition dt_year :: "date \<Rightarrow> nat" where
  "dt_year d = fst d"

definition dt_month :: "date \<Rightarrow> nat" where
  "dt_month d = fst (snd d)"

definition is_leap :: "nat \<Rightarrow> bool" where
  "is_leap y = (y mod 4 = 0 \<and> (y mod 100 \<noteq> 0 \<or> y mod 400 = 0))"

definition days_in_month :: "nat \<Rightarrow> nat \<Rightarrow> nat" where
  "days_in_month y m =
     (if m = 2 then (if is_leap y then 29 else 28)
      else if m \<in> {4, 6, 9, 11} then 30 else 31)"

text \<open>
  \<open>pd.to_datetime(col, errors='coerce')\<close>. A raw date cell is given by the calendar
  date its text denotes (\<open>None\<close> when it denotes none). The result is \<open>NaT\<close>
  (\<open>None\<close>) unless the date exists and lies inside the range of \<open>pd.Timestamp\<close>,
  1677-09-22 to 2262-04-11.
\<close>

definition to_datetime :: "date option \<Rightarrow> date option" where
  "to_datetime c =
     (case c of
        None \<Rightarrow> None
      | Some (y, m, d) \<Rightarrow>
          if 1 \<le> m \<and> m \<le> 12 \<and> 1 \<le> d \<and> d \<le> days_in_month y m
             \<and> (1677, 9, 22) \<le> (y, m, d) \<and> (y, m, d) \<le> (2262, 4, 11)
          then Some (y, m, d) else None)"

section \<open>Row-sets\<close>

text \<open>
  One row of a parsed file, with the columns the pipeline reads. A cell is \<open>None\<close>
  when it is missing (NaN), which is also what a row has in a column its file lacks.
  \<open>Mid\<close> holds the number the cell denotes, \<open>None\<close> when it is not numeric
  (\<open>pd.to_numeric(errors='coerce')\<close>); values are rationals.
\<close>

record row =
  Basis :: "string option"
  Type :: "string option"
  Call_Put :: "string option"
  Curve_Date :: "date option"
  date :: "date option"
  Mid :: "rat option"
  Contract_Month :: "string option"

text \<open>A data frame: the header as parsed, and the rows.\<close>

record frame =
  columns :: "string list"
  rows :: "row list"

text \<open>\<open>df.empty\<close>: some axis has length 0.\<close>

definition df_empty :: "frame \<Rightarrow> bool" where
  "df_empty df = (rows df = [] \<or> columns df = [])"

text \<open>\<open>series.astype(str)\<close> on one cell: a missing cell becomes the text \<open>nan\<close>.\<close>

definition astype_str :: "string option \<Rightarrow> string" where
  "astype_str c = (case c of None \<Rightarrow> ''nan'' | Some s \<Rightarrow> s)"

section \<open>Files\<close>

datatype encoding = utf_8 | utf_8_sig | utf_16

datatype bad_lines = bad_error | bad_skip

text \<open>
  An input file: the directory \<open>os.walk\<close> found it in, its name (\<open>file\<close> in the source), its size in bytes,
  and what \<open>pd.read_csv\<close> returns for it under each encoding and bad-line policy
  (\<open>None\<close> when \<open>read_csv\<close> raises).
\<close>

record csv_file =
  root :: string
  filename :: string
  getsize :: nat
  read_csv :: "encoding \<Rightarrow> bad_lines \<Rightarrow> frame option"

datatype error = KeyError | AttributeError | IndexError

section \<open>The filter stage: rows, buckets and the output folder\<close>

text \<open>
  Both filter stages add the columns \<open>year\<close> and \<open>month\<close> to the rows they keep
  (\<open>df['year']\<close>, \<open>df['month']\<close>).
\<close>

record frow = row +
  year :: string
  month :: string

text \<open>\<open>series.isin(values)\<close> on one cell; a missing cell is in no list of strings.\<close>

fun isin :: "string option \<Rightarrow> string list \<Rightarrow> bool" where
  "isin None vs = False"
| "isin (Some s) vs = (s \<in> set vs)"

text \<open>
  \<open>df.groupby(['year', 'month'])\<close>: one group per distinct (year, month) pair, the
  pairs in sorted order, each group holding its rows in their order in the frame.
\<close>

definition groupby_year_month :: "frow list \<Rightarrow> ((string \<times> string) \<times> frow list) list" where
  "groupby_year_month df =
     map (\<lambda>ym. (ym, filter (\<lambda>r. (year r, month r) = ym) df))
       (sort (remdups (map (\<lambda>r. (year r, month r)) df)))"

text \<open>
  \<open>file_dict\<close>: a Python dict from the month key to the list of groups appended to
  it, in insertion order.
\<close>

type_synonym file_dict = "(string \<times> frow list list) list"

text \<open>
  \<open>if month_key not in file_dict: file_dict[month_key] = []\<close> followed by
  \<open>file_dict[month_key].append(group)\<close>.
\<close>

definition dict_append :: "string \<Rightarrow> frow list \<Rightarrow> file_dict \<Rightarrow> file_dict" where
  "dict_append month_key grp fd =
     AList.update month_key
       ((case map_of fd month_key of None \<Rightarrow> [] | Some groups \<Rightarrow> groups) @ [grp]) fd"

text \<open>The loop \<open>for ym, group in df_filtered.groupby(['year', 'month'])\<close> of both stages.\<close>

definition add_groups ::
  "string option \<Rightarrow> ((string \<times> string) \<times> frow list) list \<Rightarrow> file_dict \<Rightarrow> file_dict" where
  "add_groups month_arg groups fd =
     foldl (\<lambda>fd (ym, grp).
              if truthy month_arg \<and> Some (snd ym) \<noteq> month_arg then fd
              else dict_append (fst ym @ ''-'' @ snd ym) grp fd)
       fd groups"

text \<open>
  The output folder: file name and table of each file in it. A monthly file holds
  the rows written to it, and reading it back gives these rows.
\<close>

type_synonym folder = "(string \<times> frow list) list"

definition to_csv :: "string \<Rightarrow> frow list \<Rightarrow> folder \<Rightarrow> folder" where
  "to_csv path df out = AList.update path df out"

text \<open>\<open>sorted(os.listdir(output_folder))\<close>, each name with the table of its file.\<close>

definition sorted_listdir :: "folder \<Rightarrow> (string \<times> frow list) list" where
  "sorted_listdir out = sort_key fst out"

subsection \<open>\<open>extract_curve_data\<close> (curve_filter.py)\<close>

text \<open>Lines 26 to 38: the guarded read of one file; \<open>None\<close> is \<open>continue\<close>.\<close>

definition curve_read :: "csv_file \<Rightarrow> frame option" where
  "curve_read f =
     (if getsize f < 10 then None
      else (case read_csv f utf_8 bad_skip of
              None \<Rightarrow> None
            | Some df \<Rightarrow> if df_empty df then None else Some df))"

definition required_columns :: "string list" where
  "required_columns = [''Basis'', ''Type'', ''Curve_Date'']"

definition missing_columns :: "string list \<Rightarrow> string list" where
  "missing_columns cols = filter (\<lambda>col. col \<notin> set cols) required_columns"

text \<open>Lines 49 to 57 on one row; \<open>None\<close> when the row is dropped for its date.\<close>

definition curve_row :: "row \<Rightarrow> frow option" where
  "curve_row r =
     (case to_datetime (Curve_Date r) of
        None \<Rightarrow> None
      | Some d \<Rightarrow>
          Some \<lparr> Basis = Some (strip (astype_str (Basis r))),
                 Type = Some (upper (strip (astype_str (Type r)))),
                 Call_Put = Call_Put r,
                 Curve_Date = Some d,
                 date = Some d,
                 Mid = Mid r,
                 Contract_Month = Contract_Month r,
                 year = str_nat (dt_year d),
                 month = fmt_02d (dt_month d) \<rparr>)"

text \<open>Lines 60 to 66: \<open>df_filtered\<close>.\<close>

definition curve_filtered ::
  "string \<Rightarrow> string list \<Rightarrow> string list \<Rightarrow> string option \<Rightarrow> row list \<Rightarrow> frow list" where
  "curve_filtered year_arg target_curves target_strikes month_arg rs =
     (let df = List.map_filter curve_row rs;
          df_filtered =
            filter (\<lambda>r. isin (map_option upper (Basis r)) (map upper target_curves)
                        \<and> isin (Type r) (map upper target_strikes)
                        \<and> year r = year_arg) df
      in if truthy month_arg then filter (\<lambda>r. Some (month r) = month_arg) df_filtered
         else df_filtered)"

text \<open>The body of the loop over the files (lines 22 to 76).\<close>

definition curve_step ::
  "string \<Rightarrow> string list \<Rightarrow> string list \<Rightarrow> string option \<Rightarrow> file_dict \<Rightarrow> csv_file
     \<Rightarrow> file_dict" where
  "curve_step year_arg target_curves target_strikes month_arg fd f =
     (if \<not> endswith (filename f) ''.csv'' then fd
      else (case curve_read f of
              None \<Rightarrow> fd
            | Some df \<Rightarrow>
                if missing_columns (map strip (columns df)) \<noteq> [] then fd
                else add_groups month_arg
                       (groupby_year_month
                          (curve_filtered year_arg target_curves target_strikes month_arg (rows df)))
                       fd))"

definition curve_file_dict ::
  "csv_file list \<Rightarrow> string \<Rightarrow> string list \<Rightarrow> string list \<Rightarrow> string option \<Rightarrow> file_dict" where
  "curve_file_dict files year_arg target_curves target_strikes month_arg =
     foldl (curve_step year_arg target_curves target_strikes month_arg) [] files"

text \<open>Lines 80 to 84: one file per month key.\<close>

definition curve_write_months :: "file_dict \<Rightarrow> folder \<Rightarrow> folder" where
  "curve_write_months fd out =
     foldl (\<lambda>out (month_key, groups). to_csv (month_key @ ''.csv'') (concat groups) out) out fd"

text \<open>
  \<open>re.match(r'\d{4}-\d{2}\.csv', f)\<close>: the pattern is matched at the start of the
  name.
\<close>

definition re_match_month :: "string \<Rightarrow> bool" where
  "re_match_month f =
     (list_all isdigit (take 4 f) \<and> length (take 4 f) = 4
      \<and> take 1 (drop 4 f) = ''-''
      \<and> list_all isdigit (take 2 (drop 5 f)) \<and> length (take 2 (drop 5 f)) = 2
      \<and> take 4 (drop 7 f) = ''.csv'')"

text \<open>Lines 87 to 95: the yearly file.\<close>

definition curve_combine :: "string \<Rightarrow> folder \<Rightarrow> folder" where
  "curve_combine year_arg out =
     (let all_months =
            map snd (filter (\<lambda>(f, df). endswith f ''.csv'' \<and> re_match_month f)
                       (sorted_listdir out))
      in if all_months \<noteq> [] then to_csv (year_arg @ ''_combined.csv'') (concat all_months) out
         else out)"

text \<open>
  \<open>extract_curve_data\<close>: \<open>files\<close> is what \<open>os.walk(input_folder)\<close> yields,
  \<open>out\<close> the content of the output folder before the call; the result is its
  content after the call.
\<close>

definition extract_curve_data ::
  "csv_file list \<Rightarrow> folder \<Rightarrow> string \<Rightarrow> string list \<Rightarrow> string list \<Rightarrow> string option \<Rightarrow> folder" where
  "extract_curve_data files out year_arg target_curves target_strikes month_arg =
     curve_combine year_arg
       (curve_write_months
          (curve_file_dict files year_arg target_curves target_strikes month_arg) out)"

subsection \<open>\<open>filter_vol_data\<close> (vol_extractor.py)\<close>

text \<open>\<open>robust_read_csv\<close> of vol_extractor.py.\<close>

definition vol_robust_read_csv :: "csv_file \<Rightarrow> frame option" where
  "vol_robust_read_csv f =
     (case read_csv f utf_8_sig bad_error of
        Some df \<Rightarrow> Some df
      | None \<Rightarrow>
          (case read_csv f utf_16 bad_error of
             Some df \<Rightarrow> Some df
           | None \<Rightarrow> None))"

text \<open>Lines 29 to 38 on one row.\<close>

definition vol_row :: "row \<Rightarrow> frow option" where
  "vol_row r =
     (case to_datetime (Curve_Date r) of
        None \<Rightarrow> None
      | Some d \<Rightarrow>
          Some \<lparr> Basis = Some (strip (astype_str (Basis r))),
                 Type = Some (upper (strip (astype_str (Type r)))),
                 Call_Put = Some (upper (strip (astype_str (Call_Put r)))),
                 Curve_Date = Some d,
                 date = Some d,
                 Mid = Mid r,
                 Contract_Month = Contract_Month r,
                 year = str_nat (dt_year d),
                 month = fmt_02d (dt_month d) \<rparr>)"

text \<open>
  The arguments of \<open>filter_vol_data\<close> that select rows (\<open>year\<close>, \<open>month\<close>,
  \<open>start_date\<close> and \<open>end_date\<close> carry the prefix \<open>arg\<close> here). The two dates
  are given by the dates the arguments denote, \<open>None\<close> when not supplied.
\<close>

record vol_args =
  arg_year :: string
  basis_filter :: "string list"
  type_filter :: "string option"
  callput_filter :: "string option"
  arg_month :: "string option"
  arg_start_date :: "date option"
  arg_end_date :: "date option"

text \<open>Lines 40 to 52: the mask on one row.\<close>

definition vol_mask :: "vol_args \<Rightarrow> frow \<Rightarrow> bool" where
  "vol_mask a r =
     (isin (map_option upper (Basis r)) (map upper (basis_filter a))
      \<and> (if truthy (type_filter a) then Type r = map_option upper (type_filter a) else True)
      \<and> (if truthy (callput_filter a) then Call_Put r = map_option upper (callput_filter a)
         else True)
      \<and> (case (arg_start_date a, arg_end_date a) of
           (Some s, Some e) \<Rightarrow>
             (case Curve_Date r of Some d \<Rightarrow> s \<le> d \<and> d \<le> e | None \<Rightarrow> False)
         | _ \<Rightarrow> year r = arg_year a)
      \<and> (if truthy (arg_month a) then Some (month r) = arg_month a else True))"

definition vol_filtered :: "vol_args \<Rightarrow> row list \<Rightarrow> frow list" where
  "vol_filtered a rs = filter (vol_mask a) (List.map_filter vol_row rs)"

text \<open>
  The body of the loop over the files (lines 21 to 62). Indexing a frame by a column
  it lacks raises \<open>KeyError\<close>; \<open>df.get('Call/Put', '')\<close> is the string \<open>''\<close> when the
  column is absent, and \<open>''.astype\<close> raises \<open>AttributeError\<close>.
\<close>

definition vol_step :: "vol_args \<Rightarrow> file_dict \<Rightarrow> csv_file \<Rightarrow> error + file_dict" where
  "vol_step a fd f =
     (if \<not> endswith (filename f) ''.csv'' then Inr fd
      else (case vol_robust_read_csv f of
              None \<Rightarrow> Inr fd
            | Some df \<Rightarrow>
                (let cols = map (remove_zwsp \<circ> strip) (columns df) in
                 if ''Basis'' \<notin> set cols then Inl KeyError
                 else if ''Type'' \<notin> set cols then Inl KeyError
                 else if ''Call/Put'' \<notin> set cols then Inl AttributeError
                 else if ''Curve_Date'' \<notin> set cols then Inr fd
                 else Inr (add_groups (arg_month a)
                             (groupby_year_month (vol_filtered a (rows df))) fd))))"

fun vol_file_dict :: "vol_args \<Rightarrow> file_dict \<Rightarrow> csv_file list \<Rightarrow> error + file_dict" where
  "vol_file_dict a fd [] = Inr fd"
| "vol_file_dict a fd (f # fs) =
     (case vol_step a fd f of
        Inl e \<Rightarrow> Inl e
      | Inr fd' \<Rightarrow> vol_file_dict a fd' fs)"

text \<open>\<open>basis_filter[0] if basis_filter else "UNKNOWN"\<close>.\<close>

definition vol_curve_name :: "vol_args \<Rightarrow> string" where
  "vol_curve_name a = (case basis_filter a of [] \<Rightarrow> ''UNKNOWN'' | c # _ \<Rightarrow> c)"

text \<open>Lines 64 to 71; \<open>month_key.split('-')[1]\<close> raises \<open>IndexError\<close> on a key with no dash.\<close>

definition vol_out_path :: "vol_args \<Rightarrow> string \<Rightarrow> error + string" where
  "vol_out_path a month_key =
     (case split_dash month_key of
        _ # month_num # _ \<Rightarrow> Inr (vol_curve_name a @ ''_'' @ month_num @ ''_ewma_hist.csv'')
      | _ \<Rightarrow> Inl IndexError)"

fun vol_write_months :: "vol_args \<Rightarrow> file_dict \<Rightarrow> folder \<Rightarrow> error + folder" where
  "vol_write_months a [] out = Inr out"
| "vol_write_months a ((month_key, groups) # fd) out =
     (case vol_out_path a month_key of
        Inl e \<Rightarrow> Inl e
      | Inr out_path \<Rightarrow> vol_write_months a fd (to_csv out_path (concat groups) out))"

text \<open>Lines 73 to 85: the yearly file.\<close>

definition vol_combine :: "vol_args \<Rightarrow> folder \<Rightarrow> folder" where
  "vol_combine a out =
     (let all_months =
            map snd (filter (\<lambda>(f, df). endswith f ''_ewma_hist.csv'') (sorted_listdir out))
      in if all_months \<noteq> []
         then to_csv (vol_curve_name a @ ''_'' @ arg_year a @ ''_ewma_hist_combined.csv'')
                (concat all_months) out
         else out)"

definition filter_vol_data :: "csv_file list \<Rightarrow> folder \<Rightarrow> vol_args \<Rightarrow> error + folder" where
  "filter_vol_data files out a =
     (case vol_file_dict a [] files of
        Inl e \<Rightarrow> Inl e
      | Inr fd \<Rightarrow>
          (case vol_write_months a fd out of
             Inl e \<Rightarrow> Inl e
           | Inr out' \<Rightarrow> Inr (vol_combine a out')))"

text \<open>\<open>pd.concat(groups)\<close> for one key of \<open>file_dict\<close>; empty when the key is absent.\<close>

definition bucket :: "file_dict \<Rightarrow> string \<Rightarrow> frow list" where
  "bucket fd month_key = (case map_of fd month_key of None \<Rightarrow> [] | Some groups \<Rightarrow> concat groups)"

text \<open>The year and the month a bucket key names.\<close>

definition key_year :: "string \<Rightarrow> nat" where
  "key_year month_key = int_of_str (hd (split_dash month_key))"

definition key_month :: "string \<Rightarrow> nat" where
  "key_month month_key = int_of_str (hd (tl (split_dash month_key)))"

text \<open>The key \<open>f"{ym[0]}-{ym[1]}"\<close> of a row, from its columns \<open>year\<close> and \<open>month\<close>.\<close>

definition month_key_of :: "frow \<Rightarrow> string" where
  "month_key_of r = year r @ ''-'' @ month r"

text \<open>
  The rows a file hands to the grouping loop: \<open>df_filtered\<close>, or no row when the
  file is skipped.
\<close>

definition curve_file_rows ::
  "string \<Rightarrow> string list \<Rightarrow> string list \<Rightarrow> string option \<Rightarrow> csv_file \<Rightarrow> frow list" where
  "curve_file_rows year_arg target_curves target_strikes month_arg f =
     (if \<not> endswith (filename f) ''.csv'' then []
      else (case curve_read f of
              None \<Rightarrow> []
            | Some df \<Rightarrow>
                if missing_columns (map strip (columns df)) \<noteq> [] then []
                else curve_filtered year_arg target_curves target_strikes month_arg (rows df)))"

definition vol_file_rows :: "vol_args \<Rightarrow> csv_file \<Rightarrow> frow list" where
  "vol_file_rows a f =
     (if \<not> endswith (filename f) ''.csv'' then []
      else (case vol_robust_read_csv f of
              None \<Rightarrow> []
            | Some df \<Rightarrow>
                if ''Curve_Date'' \<notin> set (map (remove_zwsp \<circ> strip) (columns df)) then []
                else vol_filtered a (rows df)))"

text \<open>A row whose \<open>year\<close> and \<open>month\<close> columns are those of its own \<open>Curve_Date\<close>.\<close>

definition dated :: "frow \<Rightarrow> bool" where
  "dated r = (case Curve_Date r of
                None \<Rightarrow> False
              | Some d \<Rightarrow> year r = str_nat (dt_year d) \<and> month r = fmt_02d (dt_month d))"

text \<open>
  The files the yearly step of \<open>extract_curve_data\<close> reads: those whose name ends in
  \<open>.csv\<close> and matches the month pattern.
\<close>

definition monthly_artifacts :: "folder \<Rightarrow> folder" where
  "monthly_artifacts out = filter (\<lambda>(f, df). endswith f ''.csv'' \<and> re_match_month f) out"

text \<open>
  The monthly artifacts of one year, in the words of the specification: the files named
  \<open>{year}-{month}.csv\<close>.
\<close>

definition monthly_artifacts_of_year :: "string \<Rightarrow> folder \<Rightarrow> folder" where
  "monthly_artifacts_of_year year_arg out =
     filter (\<lambda>(f, df). startswith f (year_arg @ ''-'')) (monthly_artifacts out)"

section \<open>The surface builder (volatility_surface.py)\<close>

text \<open>\<open>robust_read_csv\<close> of volatility_surface.py.\<close>

definition surface_robust_read_csv :: "csv_file \<Rightarrow> frame option" where
  "surface_robust_read_csv f =
     (if getsize f < 10 then None
      else (case read_csv f utf_8 bad_skip of
              None \<Rightarrow> None
            | Some df \<Rightarrow> if df_empty df then None else Some df))"

definition type_to_moneyness :: "(string \<times> rat) list" where
  "type_to_moneyness =
     [(''ATM - $1.00'', - 1), (''ATM - $0.75'', - (3 / 4)), (''ATM - $0.50'', - (1 / 2)),
      (''ATM - $0.25'', - (1 / 4)), (''ATM'', 0),
      (''ATM + $0.25'', 1 / 4), (''ATM + $0.50'', 1 / 2), (''ATM + $0.75'', 3 / 4),
      (''ATM + $1.00'', 1), (''ATM + $1.25'', 5 / 4), (''ATM + $1.50'', 3 / 2),
      (''ATM + $1.75'', 7 / 4), (''ATM + $2.00'', 2)]"

text \<open>\<open>df['Type'].map(type_to_moneyness)\<close> on one cell.\<close>

definition moneyness_of :: "string option \<Rightarrow> rat option" where
  "moneyness_of t = (case t of None \<Rightarrow> None | Some s \<Rightarrow> map_of type_to_moneyness s)"

text \<open>The rows of the surface builder carry the added column \<open>Moneyness\<close>.\<close>

record srow = row +
  Moneyness :: "rat option"

text \<open>
  The added columns \<open>month\<close> (\<open>dt.to_period('M').astype(str)\<close>) and \<open>year\<close>
  (\<open>dt.year.astype(str)\<close>) are functions of the date. The year of a column that
  holds a \<open>NaT\<close> is a float, printed with \<open>.0\<close>.
\<close>

definition period_month :: "date option \<Rightarrow> string" where
  "period_month c =
     (case c of None \<Rightarrow> ''NaT'' | Some d \<Rightarrow> str_nat (dt_year d) @ ''-'' @ fmt_02d (dt_month d))"

definition year_label :: "bool \<Rightarrow> date option \<Rightarrow> string" where
  "year_label has_nat c =
     (case c of
        None \<Rightarrow> ''nan''
      | Some d \<Rightarrow> if has_nat then str_nat (dt_year d) @ ''.0'' else str_nat (dt_year d))"

text \<open>\<open>df.columns.str.strip().str.replace(zero-width space, '')\<close>.\<close>

definition clean_columns :: "string list \<Rightarrow> string list" where
  "clean_columns cols = map (remove_zwsp \<circ> strip) cols"

text \<open>\<open>not month or month in file\<close>.\<close>

fun month_matches :: "string option \<Rightarrow> string \<Rightarrow> bool" where
  "month_matches None file = True"
| "month_matches (Some m) file = (m = [] \<or> contains file m)"

text \<open>
  Lines 43 to 55 on one row of a frame with the cleaned header \<open>cols\<close>: the date is
  read from \<open>date\<close> when the frame has that column, else from \<open>Curve_Date\<close>.
\<close>

definition surface_row :: "string list \<Rightarrow> row \<Rightarrow> srow" where
  "surface_row cols r =
     \<lparr> Basis = (if ''Basis'' \<in> set cols then Basis r else None),
       Type = Type r,
       Call_Put = Call_Put r,
       Curve_Date = Curve_Date r,
       date = to_datetime (if ''date'' \<in> set cols then date r else Curve_Date r),
       Mid = Mid r,
       Contract_Month = Contract_Month r,
       Moneyness = moneyness_of (Type r) \<rparr>"

text \<open>
  The body of the loop over \<open>os.listdir(data_folder)\<close> (lines 35 to 56): an error,
  or no frame (the file is passed over), or the header and rows appended to
  \<open>all_data\<close>.
\<close>

definition surface_step :: "string option \<Rightarrow> csv_file \<Rightarrow> error + (string list \<times> srow list) option" where
  "surface_step target_month f =
     (if endswith (filename f) ''.csv'' \<and> month_matches target_month (filename f) then
        (case surface_robust_read_csv f of
           None \<Rightarrow> Inr None
         | Some df \<Rightarrow>
             (let cols = clean_columns (columns df) in
              if ''Type'' \<notin> set cols then Inl KeyError
              else if ''Mid'' \<notin> set cols then Inl KeyError
              else if ''date'' \<in> set cols \<or> ''Curve_Date'' \<in> set cols
                then Inr (Some (cols, map (surface_row cols) (rows df)))
              else Inr None))
      else Inr None)"

fun surface_load ::
  "string option \<Rightarrow> csv_file list \<Rightarrow> error + (string list \<times> srow list) list" where
  "surface_load target_month [] = Inr []"
| "surface_load target_month (f # fs) =
     (case surface_step target_month f of
        Inl e \<Rightarrow> Inl e
      | Inr loaded \<Rightarrow>
          (case surface_load target_month fs of
             Inl e \<Rightarrow> Inl e
           | Inr all_data \<Rightarrow> Inr ((case loaded of None \<Rightarrow> [] | Some df \<Rightarrow> [df]) @ all_data)))"

text \<open>\<open>series.unique()\<close>: the distinct values in order of first appearance.\<close>

definition unique :: "'a list \<Rightarrow> 'a list" where
  "unique xs = rev (remdups (rev xs))"

text \<open>The mean of the values of a group; no value gives NaN.\<close>

definition mean :: "rat list \<Rightarrow> rat option" where
  "mean vs = (if vs = [] then None else Some (sum_list vs / of_nat (length vs)))"

text \<open>
  A surface matrix, by its cells: date, moneyness and value, in the order of the index
  and then of the columns.
\<close>

type_synonym surface_matrix = "((date \<times> rat) \<times> rat) list"

text \<open>
  \<open>pivot_table(index='date', columns='Moneyness', values='Mid', aggfunc='mean')\<close>
  followed by \<open>dropna(axis=1, how='all')\<close>: rows without a date or without a
  moneyness are in no group, the value of a group is the mean of its numeric \<open>Mid\<close>,
  and a group without one has no cell.
\<close>

definition pivot_surface :: "srow list \<Rightarrow> surface_matrix" where
  "pivot_surface df =
     (let keyed = List.map_filter
                    (\<lambda>r. case (date r, Moneyness r) of
                           (Some d, Some m) \<Rightarrow> Some ((d, m), Mid r)
                         | _ \<Rightarrow> None) df
      in List.map_filter
           (\<lambda>k. map_option (Pair k)
                  (mean (List.map_filter (\<lambda>(k', v). if k' = k then v else None) keyed)))
           (sort (remdups (map fst keyed))))"

text \<open>\<open>target_curve.replace(' ', '_')\<close>.\<close>

definition safe_curve :: "string \<Rightarrow> string" where
  "safe_curve target_curve = map (\<lambda>c. if c = CHR '' '' then CHR ''_'' else c) target_curve"

text \<open>
  One of the two loops over the periods (lines 75 to 103 for the months, 106 to 133
  for the years): \<open>label\<close> gives the period of a row, \<open>suffix\<close> ends the file name.
\<close>

definition period_surfaces ::
  "string \<Rightarrow> (srow \<Rightarrow> string) \<Rightarrow> string \<Rightarrow> srow list \<Rightarrow> (string \<times> surface_matrix) list" where
  "period_surfaces target_curve label suffix df_all =
     List.map_filter
       (\<lambda>period.
          (let df_p = filter (\<lambda>r. Basis r = Some target_curve \<and> label r = period) df_all;
               pivot = pivot_surface df_p
           in if df_p = [] \<or> pivot = [] then None
              else Some (safe_curve target_curve @ ''_'' @ period @ suffix @ ''_data.csv'', pivot)))
       (unique (map label df_all))"

text \<open>
  Lines 65 to 72: the filter by \<open>date_range\<close>, else by \<open>start_date\<close> and
  \<open>end_date\<close>. \<open>date_range\<close> is the pair of dates of a two-element argument,
  \<open>start_date\<close> and \<open>end_date\<close> the dates the arguments denote.
\<close>

definition between :: "date \<Rightarrow> date \<Rightarrow> date option \<Rightarrow> bool" where
  "between s e c = (case c of None \<Rightarrow> False | Some d \<Rightarrow> s \<le> d \<and> d \<le> e)"

definition surface_date_filter ::
  "(date \<times> date) option \<Rightarrow> date option \<Rightarrow> date option \<Rightarrow> srow list \<Rightarrow> srow list" where
  "surface_date_filter date_range start_date end_date df_all =
     (case date_range of
        Some (s, e) \<Rightarrow> filter (\<lambda>r. between s e (date r)) df_all
      | None \<Rightarrow>
          (case (start_date, end_date) of
             (Some s, Some e) \<Rightarrow> filter (\<lambda>r. between s e (date r)) df_all
           | _ \<Rightarrow> df_all))"

text \<open>
  \<open>generate_vol_surfaces\<close>: \<open>files\<close> is \<open>os.listdir(data_folder)\<close>; the result
  lists the matrix files written, by name. Reading \<open>df_all['Basis']\<close> in a loop
  raises \<open>KeyError\<close> when no loaded frame has the column.
\<close>

definition generate_vol_surfaces ::
  "csv_file list \<Rightarrow> string \<Rightarrow> string option \<Rightarrow> (date \<times> date) option \<Rightarrow> date option
     \<Rightarrow> date option \<Rightarrow> error + (string \<times> surface_matrix) list" where
  "generate_vol_surfaces files target_curve target_month date_range start_date end_date =
     (case surface_load target_month files of
        Inl e \<Rightarrow> Inl e
      | Inr all_data \<Rightarrow>
          if all_data = [] then Inr []
          else
            (let has_nat = (\<exists>r \<in> set (concat (map snd all_data)). date r = None);
                 df_all = surface_date_filter date_range start_date end_date
                            (concat (map snd all_data))
             in if df_all = [] then Inr []
                else if ''Basis'' \<notin> set (concat (map fst all_data)) then Inl KeyError
                else Inr (period_surfaces target_curve (\<lambda>r. period_month (date r)) ''_surface''
                            df_all
                          @ period_surfaces target_curve (\<lambda>r. year_label has_nat (date r))
                              ''_YEARLY_surface'' df_all)))"

section \<open>The time-series builder (time_series_plotter.py)\<close>

text \<open>
  Lines 35 to 41 on one row of a frame with the cleaned header \<open>cols\<close>: the column
  \<open>date\<close> is parsed from \<open>date\<close> when the frame has it, else from \<open>Curve_Date\<close>.
  A column the frame lacks is missing in its rows once the frames are concatenated.
\<close>

definition ts_row :: "string list \<Rightarrow> row \<Rightarrow> row" where
  "ts_row cols r =
     r\<lparr> Basis := (if ''Basis'' \<in> set cols then Basis r else None),
        Contract_Month := (if ''Contract_Month'' \<in> set cols then Contract_Month r else None),
        date := to_datetime (if ''date'' \<in> set cols then date r else Curve_Date r) \<rparr>"

text \<open>
  The body of the loop over the files (lines 19 to 60). Every exception is caught and
  the file passed over (\<open>None\<close>), also the \<open>KeyError\<close> of a frame without \<open>Mid\<close>;
  otherwise the header and the rows appended to \<open>all_data\<close>.
\<close>

definition ts_step ::
  "string option \<Rightarrow> date option \<Rightarrow> date option \<Rightarrow> csv_file \<Rightarrow> (string list \<times> row list) option" where
  "ts_step month_arg start_date end_date f =
     (if \<not> endswith (filename f) ''.csv'' then None
      else if \<not> month_matches month_arg (filename f) then None
      else (case read_csv f utf_8 bad_skip of
              None \<Rightarrow> None
            | Some df \<Rightarrow>
                if df_empty df then None
                else
                  (let cols = clean_columns (columns df) in
                   if ''date'' \<notin> set cols \<and> ''Curve_Date'' \<notin> set cols then None
                   else
                     (let dated = map (ts_row cols) (rows df);
                          ranged = (case (start_date, end_date) of
                                      (Some s, Some e) \<Rightarrow>
                                        filter (\<lambda>r. between s e (date r)) dated
                                    | _ \<Rightarrow> dated);
                          numeric = filter (\<lambda>r. Mid r \<noteq> None) ranged
                      in if ''Mid'' \<notin> set cols then None
                         else if numeric = [] then None
                         else Some (if ''date'' \<in> set cols then cols else cols @ [''date''],
                                    numeric)))))"

definition ts_all_data ::
  "string option \<Rightarrow> date option \<Rightarrow> date option \<Rightarrow> csv_file list \<Rightarrow> (string list \<times> row list) list" where
  "ts_all_data month_arg start_date end_date files =
     List.map_filter (ts_step month_arg start_date end_date) files"

text \<open>
  \<open>combined_df.sort_values('date')\<close>: ascending, \<open>NaT\<close> last. Rows of equal date
  keep their order here.
\<close>

definition sort_values_date :: "row list \<Rightarrow> row list" where
  "sort_values_date df =
     sort_key (\<lambda>r. case date r of None \<Rightarrow> (1 :: nat, (0, 0, 0)) | Some d \<Rightarrow> (0, d)) df"

text \<open>
  A time-series matrix: the date index, and the columns by label, each with one cell
  per date of the index (\<open>None\<close> is NaN).
\<close>

record matrix =
  mx_index :: "date list"
  mx_columns :: "(string \<times> rat option list) list"

text \<open>
  \<open>pivot_table(index='date', columns='Contract_Month', values='Mid',
  aggfunc='mean').sort_index()\<close>.
\<close>

definition pivot_contract_month :: "row list \<Rightarrow> matrix" where
  "pivot_contract_month df =
     (let keyed = List.map_filter
                    (\<lambda>r. case (date r, Contract_Month r, Mid r) of
                           (Some d, Some c, Some v) \<Rightarrow> Some (d, c, v)
                         | _ \<Rightarrow> None) df;
          idx = sort (remdups (map fst keyed))
      in \<lparr> mx_index = idx,
           mx_columns =
             map (\<lambda>c. (c, map (\<lambda>d. mean (map (snd \<circ> snd)
                                      (filter (\<lambda>(d', c', v). d' = d \<and> c' = c) keyed))) idx))
               (sort (remdups (map (fst \<circ> snd) keyed))) \<rparr>)"

text \<open>
  \<open>groupby('date')['Mid'].mean().to_frame().sort_index()\<close> with the column named
  \<open>EWMA_Volatility\<close>.
\<close>

definition pivot_ewma :: "row list \<Rightarrow> matrix" where
  "pivot_ewma df =
     (let keyed = List.map_filter
                    (\<lambda>r. case (date r, Mid r) of
                           (Some d, Some v) \<Rightarrow> Some (d, v)
                         | _ \<Rightarrow> None) df;
          idx = sort (remdups (map fst keyed))
      in \<lparr> mx_index = idx,
           mx_columns =
             [(''EWMA_Volatility'',
               map (\<lambda>d. mean (map snd (filter (\<lambda>(d', v). d' = d) keyed))) idx)] \<rparr>)"

text \<open>
  \<open>rolling(window, min_periods).mean()\<close> on one column: the window slides down the
  column, keeping the last \<open>window\<close> cells; a row gets the mean of the numbers in the
  window when there are at least \<open>min_periods\<close> of them.
\<close>

definition window_mean :: "nat \<Rightarrow> rat option list \<Rightarrow> rat option" where
  "window_mean min_periods win =
     (let obs = List.map_filter id win in if min_periods \<le> length obs then mean obs else None)"

fun rolling_from :: "nat \<Rightarrow> nat \<Rightarrow> rat option list \<Rightarrow> rat option list \<Rightarrow> rat option list" where
  "rolling_from w min_periods win [] = []"
| "rolling_from w min_periods win (x # xs) =
     (let win' = drop (Suc (length win) - w) (win @ [x])
      in window_mean min_periods win' # rolling_from w min_periods win' xs)"

definition rolling_mean :: "nat \<Rightarrow> nat \<Rightarrow> rat option list \<Rightarrow> rat option list" where
  "rolling_mean w min_periods col = rolling_from w min_periods [] col"

text \<open>\<open>diff()\<close> on one column: each cell minus the cell above it.\<close>

definition cell_sub :: "rat option \<Rightarrow> rat option \<Rightarrow> rat option" where
  "cell_sub x prev = (case (x, prev) of (Some a, Some b) \<Rightarrow> Some (a - b) | _ \<Rightarrow> None)"

fun diff_from :: "rat option \<Rightarrow> rat option list \<Rightarrow> rat option list" where
  "diff_from prev [] = []"
| "diff_from prev (x # xs) = cell_sub x prev # diff_from x xs"

definition diff :: "rat option list \<Rightarrow> rat option list" where
  "diff col = diff_from None col"

definition map_columns :: "(rat option list \<Rightarrow> rat option list) \<Rightarrow> matrix \<Rightarrow> matrix" where
  "map_columns f m = m\<lparr> mx_columns := map (\<lambda>(c, vs). (c, f vs)) (mx_columns m) \<rparr>"

text \<open>What one call writes: the workbook with its three sheets, and the images.\<close>

record ts_artifacts =
  output_file :: string
  Original_TS :: matrix
  rolling_sheet :: string
  Rolling :: matrix
  Daily_Change :: matrix
  images :: "string list"

text \<open>
  \<open>build_vol_time_series\<close>: \<open>files\<close> is what \<open>os.walk(input_folder)\<close> yields. The
  result is \<open>None\<close> when no file gives a row (the function returns with nothing
  written). \<open>rolling.min().iloc[0]\<close> in the debug print raises \<open>IndexError\<close> for a
  matrix without columns.
\<close>

definition build_vol_time_series ::
  "csv_file list \<Rightarrow> string \<Rightarrow> string option \<Rightarrow> nat \<Rightarrow> date option \<Rightarrow> date option
     \<Rightarrow> error + ts_artifacts option" where
  "build_vol_time_series files curve_name month_arg rolling_window start_date end_date =
     (let all_data = ts_all_data month_arg start_date end_date files in
      if all_data = [] then Inr None
      else
        (let cols = concat (map fst all_data);
             combined_df = sort_values_date (concat (map snd all_data))
         in case combined_df of
              [] \<Rightarrow> Inl IndexError
            | first # _ \<Rightarrow>
                (let curve = (if ''Basis'' \<in> set cols then astype_str (Basis first)
                              else curve_name);
                     pivot = (if ''Contract_Month'' \<in> set cols
                              then pivot_contract_month combined_df
                              else pivot_ewma combined_df);
                     min_periods = min rolling_window (min (length (mx_index pivot)) 10);
                     rolling = map_columns (rolling_mean rolling_window min_periods) pivot;
                     daily_change = map_columns diff rolling;
                     period_label = (case month_arg of
                                       Some m \<Rightarrow> if m \<noteq> [] then m else curve_name @ ''_combined''
                                     | None \<Rightarrow> curve_name @ ''_combined'');
                     stem = curve @ ''_'' @ period_label
                 in if mx_columns rolling = [] then Inl IndexError
                    else Inr (Some
                      \<lparr> output_file = stem @ ''_time_series.xlsx'',
                        Original_TS = pivot,
                        rolling_sheet = ''Rolling_'' @ str_nat rolling_window @ ''D'',
                        Rolling = rolling,
                        Daily_Change = daily_change,
                        images =
                          (if ''Contract_Month'' \<notin> set cols
                           then [stem @ ''_timeseries_rolling.png'', stem @ ''_dailychange.png'']
                           else concat (map (\<lambda>(month_str, vs).
                                  [stem @ ''_'' @ month_str @ ''_timeseries_rolling.png'',
                                   stem @ ''_'' @ month_str @ ''_dailychange.png''])
                                  (mx_columns pivot))) \<rparr>))))"

text \<open>
  The rolling matrix in the words of the specification: the cell of row \<open>i\<close> is the
  mean of the numbers among the \<open>w\<close> cells ending at row \<open>i\<close>, when there are at least
  \<open>min_periods\<close> of them.
\<close>

definition trailing_mean :: "nat \<Rightarrow> nat \<Rightarrow> rat option list \<Rightarrow> rat option list" where
  "trailing_mean w min_periods col =
     map (\<lambda>i. window_mean min_periods (drop (Suc i - w) (take (Suc i) col))) [0 ..< length col]"

definition rectangular :: "matrix \<Rightarrow> bool" where
  "rectangular m = list_all (\<lambda>(c, vs). length vs = length (mx_index m)) (mx_columns m)"

text \<open>
  The rows of a cell of a surface matrix, in the words of the specification: the rows
  of that date whose \<open>Type\<close> label the lookup table maps to that moneyness.
\<close>

definition cell_rows :: "srow list \<Rightarrow> date \<Rightarrow> rat \<Rightarrow> srow list" where
  "cell_rows sel d m = filter (\<lambda>r. date r = Some d \<and> moneyness_of (Type r) = Some m) sel"

text \<open>
  The rows a file hands to \<open>all_data\<close>: none when the file is passed over.
\<close>

definition surface_file_rows :: "string option \<Rightarrow> csv_file \<Rightarrow> srow list" where
  "surface_file_rows target_month f =
     (if endswith (filename f) ''.csv'' \<and> month_matches target_month (filename f) then
        (case surface_robust_read_csv f of
           None \<Rightarrow> []
         | Some df \<Rightarrow>
             (let cols = clean_columns (columns df) in
              if ''date'' \<in> set cols \<or> ''Curve_Date'' \<in> set cols
              then map (surface_row cols) (rows df)
              else []))
      else [])"

text \<open>The three sheets of the workbook.\<close>

definition sheets :: "ts_artifacts \<Rightarrow> matrix \<times> matrix \<times> matrix" where
  "sheets a = (Original_TS a, Rolling a, Daily_Change a)"

section \<open>Example data\<close>

definition ex_rows :: "row list" where
  "ex_rows =
     [\<lparr>Basis = Some '' NYMEX'', Type = Some ''atm'', Call_Put = Some ''ewma'',
        Curve_Date = Some (2024, 1, 15), date = None, Mid = Some (1 / 5),
        Contract_Month = None\<rparr>,
      \<lparr>Basis = Some ''Nymex'', Type = Some ''ATM'', Call_Put = Some ''EWMA'',
        Curve_Date = Some (2024, 2, 3), date = None, Mid = Some (1 / 4),
        Contract_Month = None\<rparr>,
      \<lparr>Basis = Some ''HSC'', Type = Some ''ATM'', Call_Put = Some ''EWMA'',
        Curve_Date = Some (2024, 1, 20), date = None, Mid = Some (3 / 10),
        Contract_Month = None\<rparr>,
      \<lparr>Basis = Some ''NYMEX'', Type = Some ''ATM'', Call_Put = Some ''EWMA'',
        Curve_Date = None, date = None, Mid = Some (3 / 10),
        Contract_Month = None\<rparr>]"

definition ex_file :: csv_file where
  "ex_file =
     \<lparr>root = ''in/jan'', filename = ''20240115.csv'', getsize = 200,
      read_csv = (\<lambda>enc bad.
        Some \<lparr>columns = [''Basis '', ''Type'', ''Curve_Date'', ''Call/Put'', ''Mid''],
              rows = ex_rows\<rparr>)\<rparr>"

definition ex_jan :: frow where
  "ex_jan =
     \<lparr>Basis = Some ''NYMEX'', Type = Some ''ATM'', Call_Put = Some ''ewma'',
      Curve_Date = Some (2024, 1, 15), date = Some (2024, 1, 15), Mid = Some (1 / 5),
      Contract_Month = None, year = ''2024'', month = ''01''\<rparr>"

definition ex_feb :: frow where
  "ex_feb =
     \<lparr>Basis = Some ''Nymex'', Type = Some ''ATM'', Call_Put = Some ''EWMA'',
      Curve_Date = Some (2024, 2, 3), date = Some (2024, 2, 3), Mid = Some (1 / 4),
      Contract_Month = None, year = ''2024'', month = ''02''\<rparr>"

definition ex_vol_args :: vol_args where
  "ex_vol_args =
     \<lparr>arg_year = ''2024'', basis_filter = [''nymex''], type_filter = Some ''atm'',
      callput_filter = Some ''ewma'', arg_month = None, arg_start_date = None, arg_end_date = None\<rparr>"

definition ex_no_basis :: csv_file where
  "ex_no_basis =
     \<lparr>root = ''in'', filename = ''20240116.csv'', getsize = 120,
      read_csv = (\<lambda>enc bad.
        Some \<lparr>columns = [''Type'', ''Curve_Date'', ''Call/Put'', ''Mid''],
              rows = [\<lparr>Basis = None, Type = Some ''ATM'', Call_Put = Some ''EWMA'',
                       Curve_Date = Some (2024, 1, 16), date = None, Mid = Some (1 / 5),
                       Contract_Month = None\<rparr>]\<rparr>)\<rparr>"

definition ex_two_years :: csv_file where
  "ex_two_years =
     \<lparr>root = ''in'', filename = ''history.csv'', getsize = 150,
      read_csv = (\<lambda>enc bad.
        Some \<lparr>columns = [''Basis'', ''Type'', ''Call/Put'', ''Curve_Date'', ''Mid''],
              rows = [\<lparr>Basis = Some ''NYMEX'', Type = Some ''HIST'', Call_Put = Some ''EWMA'',
                       Curve_Date = Some (2023, 2, 10), date = None, Mid = Some (1 / 5),
                       Contract_Month = None\<rparr>,
                      \<lparr>Basis = Some ''NYMEX'', Type = Some ''HIST'', Call_Put = Some ''EWMA'',
                       Curve_Date = Some (2024, 2, 12), date = None, Mid = Some (1 / 4),
                       Contract_Month = None\<rparr>]\<rparr>)\<rparr>"

definition ex_feb23 :: frow where
  "ex_feb23 =
     \<lparr>Basis = Some ''NYMEX'', Type = Some ''HIST'', Call_Put = Some ''EWMA'',
      Curve_Date = Some (2023, 2, 10), date = Some (2023, 2, 10), Mid = Some (1 / 5),
      Contract_Month = None, year = ''2023'', month = ''02''\<rparr>"

definition ex_feb24 :: frow where
  "ex_feb24 =
     \<lparr>Basis = Some ''NYMEX'', Type = Some ''HIST'', Call_Put = Some ''EWMA'',
      Curve_Date = Some (2024, 2, 12), date = Some (2024, 2, 12), Mid = Some (1 / 4),
      Contract_Month = None, year = ''2024'', month = ''02''\<rparr>"

definition ex_range_args :: vol_args where
  "ex_range_args =
     \<lparr>arg_year = ''2024'', basis_filter = [''NYMEX''], type_filter = None,
      callput_filter = Some ''EWMA'', arg_month = None,
      arg_start_date = Some (2023, 1, 1), arg_end_date = Some (2024, 12, 31)\<rparr>"

definition ex_may23 :: frow where
  "ex_may23 =
     \<lparr>Basis = Some ''NYMEX'', Type = Some ''ATM'', Call_Put = Some ''EWMA'',
      Curve_Date = Some (2023, 5, 9), date = Some (2023, 5, 9), Mid = Some (2 / 5),
      Contract_Month = None, year = ''2023'', month = ''05''\<rparr>"

definition ex_mar24 :: frow where
  "ex_mar24 =
     \<lparr>Basis = Some ''NYMEX'', Type = Some ''ATM'', Call_Put = Some ''EWMA'',
      Curve_Date = Some (2024, 3, 4), date = Some (2024, 3, 4), Mid = Some (1 / 2),
      Contract_Month = None, year = ''2024'', month = ''03''\<rparr>"

definition ex_stale_2023 :: folder where
  "ex_stale_2023 = [(''2023-05.csv'', [ex_may23])]"

definition ex_stale_2024 :: folder where
  "ex_stale_2024 = [(''2024-03.csv'', [ex_mar24])]"

definition ex_frame :: frame where
  "ex_frame = \<lparr>columns = [''Basis'', ''Type'', ''Curve_Date'', ''Mid''], rows = ex_rows\<rparr>"

definition ex_header_only :: csv_file where
  "ex_header_only =
     \<lparr>root = ''in'', filename = ''h.csv'', getsize = 4,
      read_csv = (\<lambda>enc bad. Some \<lparr>columns = [''a'', ''b''], rows = []\<rparr>)\<rparr>"

definition ex_utf16 :: csv_file where
  "ex_utf16 =
     \<lparr>root = ''in'', filename = ''wide.csv'', getsize = 400,
      read_csv = (\<lambda>enc bad. if enc = utf_16 then Some ex_frame else None)\<rparr>"

definition ex_surface_rows :: "row list" where
  "ex_surface_rows =
     [\<lparr>Basis = Some ''NYMEX'', Type = Some ''ATM'', Call_Put = None,
        Curve_Date = Some (2024, 1, 15), date = Some (2024, 1, 15), Mid = Some (1 / 5),
        Contract_Month = None\<rparr>,
      \<lparr>Basis = Some ''NYMEX'', Type = Some ''ATM'', Call_Put = None,
        Curve_Date = Some (2024, 1, 15), date = Some (2024, 1, 15), Mid = Some (6 / 25),
        Contract_Month = None\<rparr>,
      \<lparr>Basis = Some ''NYMEX'', Type = Some ''ATM - $0.50'', Call_Put = None,
        Curve_Date = Some (2024, 1, 15), date = Some (2024, 1, 15), Mid = Some (3 / 10),
        Contract_Month = None\<rparr>,
      \<lparr>Basis = Some ''NYMEX'', Type = Some ''HIST'', Call_Put = None,
        Curve_Date = Some (2024, 1, 15), date = Some (2024, 1, 15), Mid = Some (9 / 10),
        Contract_Month = None\<rparr>,
      \<lparr>Basis = Some ''NYMEX'', Type = Some ''ATM + $0.25'', Call_Put = None,
        Curve_Date = Some (2024, 2, 1), date = Some (2024, 2, 1), Mid = Some (1 / 4),
        Contract_Month = None\<rparr>]"

definition ex_surface_file :: csv_file where
  "ex_surface_file =
     \<lparr>root = ''filtered'', filename = ''2024-01.csv'', getsize = 300,
      read_csv = (\<lambda>enc bad.
        Some \<lparr>columns = [''Basis'', ''Type'', ''Curve_Date'', ''Mid'', ''date''],
              rows = ex_surface_rows\<rparr>)\<rparr>"

definition ex_surface_out :: "(string \<times> surface_matrix) list" where
  "ex_surface_out =
     [(''NYMEX_2024-01_surface_data.csv'',
         [(((2024, 1, 15), - (1 / 2)), 3 / 10), (((2024, 1, 15), 0), 11 / 50)]),
      (''NYMEX_2024-02_surface_data.csv'',
         [(((2024, 2, 1), 1 / 4), 1 / 4)]),
      (''NYMEX_2024_YEARLY_surface_data.csv'',
         [(((2024, 1, 15), - (1 / 2)), 3 / 10), (((2024, 1, 15), 0), 11 / 50),
          (((2024, 2, 1), 1 / 4), 1 / 4)])]"

definition ex_ts_file :: csv_file where
  "ex_ts_file =
     \<lparr>root = ''ewma'', filename = ''NYMEX_01_ewma_hist.csv'', getsize = 300,
      read_csv = (\<lambda>enc bad.
        Some \<lparr>columns = [''Basis'', ''Type'', ''Call/Put'', ''Curve_Date'', ''Mid'', ''date''],
              rows =
                [\<lparr>Basis = Some ''NYMEX'', Type = Some ''HIST'', Call_Put = Some ''EWMA'',
                   Curve_Date = Some (2024, 1, 3), date = Some (2024, 1, 3), Mid = Some (3 / 10),
                   Contract_Month = None\<rparr>,
                 \<lparr>Basis = Some ''HSC'', Type = Some ''HIST'', Call_Put = Some ''EWMA'',
                   Curve_Date = Some (2024, 1, 2), date = Some (2024, 1, 2), Mid = Some (2 / 5),
                   Contract_Month = None\<rparr>,
                 \<lparr>Basis = Some ''NYMEX'', Type = Some ''HIST'', Call_Put = Some ''EWMA'',
                   Curve_Date = Some (2024, 1, 2), date = Some (2024, 1, 2), Mid = Some (1 / 5),
                   Contract_Month = None\<rparr>,
                 \<lparr>Basis = Some ''NYMEX'', Type = Some ''HIST'', Call_Put = Some ''EWMA'',
                   Curve_Date = Some (2024, 2, 1), date = Some (2024, 2, 1), Mid = Some (1 / 2),
                   Contract_Month = None\<rparr>,
                 \<lparr>Basis = Some ''NYMEX'', Type = Some ''HIST'', Call_Put = Some ''EWMA'',
                   Curve_Date = Some (2024, 2, 2), date = Some (2024, 2, 2), Mid = None,
                   Contract_Month = None\<rparr>]\<rparr>)\<rparr>"

definition ex_ts_index :: "date list" where
  "ex_ts_index = [(2024, 1, 2), (2024, 1, 3), (2024, 2, 1)]"

definition ex_ts_artifacts :: "string \<Rightarrow> ts_artifacts" where
  "ex_ts_artifacts stem =
     \<lparr>output_file = stem @ ''_time_series.xlsx'',
      Original_TS = \<lparr>mx_index = ex_ts_index,
        mx_columns = [(''EWMA_Volatility'', [Some (3 / 10), Some (3 / 10), Some (1 / 2)])]\<rparr>,
      rolling_sheet = ''Rolling_2D'',
      Rolling = \<lparr>mx_index = ex_ts_index,
        mx_columns = [(''EWMA_Volatility'', [None, Some (3 / 10), Some (2 / 5)])]\<rparr>,
      Daily_Change = \<lparr>mx_index = ex_ts_index,
        mx_columns = [(''EWMA_Volatility'', [None, None, Some (1 / 10)])]\<rparr>,
      images = [stem @ ''_timeseries_rolling.png'', stem @ ''_dailychange.png'']\<rparr>"

section \<open>Properties\<close>

subsection \<open>Unfolding sets for concrete inputs\<close>

lemmas str_eval = strip_def lstrip_def rstrip_def isspace_def isspace2_def isspace3_def
  upper_def upper_char_def endswith_def startswith_def
  str_nat.simps fmt_02d_def digit_char_def astype_str_def

lemmas date_eval = to_datetime_def days_in_month_def is_leap_def dt_year_def dt_month_def

lemmas group_eval = groupby_year_month_def add_groups_def dict_append_def bucket_def

lemmas curve_eval = curve_file_rows_def curve_read_def df_empty_def missing_columns_def
  required_columns_def curve_filtered_def curve_row_def curve_step_def curve_file_dict_def

lemmas vol_eval = vol_file_rows_def vol_robust_read_csv_def vol_filtered_def vol_row_def
  vol_mask_def vol_step_def

lemmas ex_eval = ex_file_def ex_rows_def ex_jan_def ex_feb_def ex_vol_args_def

subsection \<open>Bucket keys\<close>

lemma digit_val_digit_char: "d < 10 \<Longrightarrow> digit_val (digit_char d) = d"
proof -
  assume "d < 10"
  then have "d \<in> {0, 1, 2, 3, 4, 5, 6, 7, 8, 9}" by auto
  then show ?thesis
    by (auto simp: digit_val_def digit_char_def)
qed

lemma digit_char_not_dash: "d < 10 \<Longrightarrow> digit_char d \<noteq> CHR ''-''"
proof -
  assume "d < 10"
  then have "d \<in> {0, 1, 2, 3, 4, 5, 6, 7, 8, 9}" by auto
  then show ?thesis
    by (auto simp: digit_char_def)
qed

lemma int_of_str_snoc: "int_of_str (s @ [c]) = 10 * int_of_str s + digit_val c"
  by (simp add: int_of_str_def)

lemma int_of_str_str_nat: "int_of_str (str_nat n) = n"
proof (induction n rule: str_nat.induct)
  case (1 n)
  show ?case
  proof (cases "n < 10")
    case True
    then show ?thesis
      by (simp add: str_nat.simps [of n] int_of_str_def digit_val_digit_char)
  next
    case False
    with 1 have "int_of_str (str_nat (n div 10)) = n div 10" by simp
    with False show ?thesis
      by (simp add: str_nat.simps [of n] int_of_str_snoc digit_val_digit_char)
  qed
qed

lemma str_nat_no_dash: "CHR ''-'' \<notin> set (str_nat n)"
proof (induction n rule: str_nat.induct)
  case (1 n)
  show ?case
  proof (cases "n < 10")
    case True
    then show ?thesis
      using digit_char_not_dash [of n] by (auto simp: str_nat.simps [of n])
  next
    case False
    with 1 have "CHR ''-'' \<notin> set (str_nat (n div 10))" by simp
    with False show ?thesis
      using digit_char_not_dash [of "n mod 10"] by (auto simp: str_nat.simps [of n])
  qed
qed

lemma int_of_str_fmt_02d: "int_of_str (fmt_02d m) = m"
proof (cases "m < 10")
  case True
  have "int_of_str (CHR ''0'' # str_nat m) = int_of_str (str_nat m)"
    by (simp add: int_of_str_def digit_val_def)
  with True show ?thesis by (simp add: fmt_02d_def int_of_str_str_nat)
next
  case False
  then show ?thesis by (simp add: fmt_02d_def int_of_str_str_nat)
qed

lemma fmt_02d_no_dash: "CHR ''-'' \<notin> set (fmt_02d m)"
  using str_nat_no_dash [of m] by (simp add: fmt_02d_def)

lemma split_dash_no_dash: "CHR ''-'' \<notin> set s \<Longrightarrow> split_dash s = [s]"
  by (induction s) auto

lemma split_dash_key:
  "CHR ''-'' \<notin> set y \<Longrightarrow> CHR ''-'' \<notin> set m \<Longrightarrow> split_dash (y @ ''-'' @ m) = [y, m]"
  by (induction y) (auto simp: split_dash_no_dash)

lemma key_year_month:
  "key_year (str_nat y @ CHR ''-'' # fmt_02d m) = y \<and>
   key_month (str_nat y @ CHR ''-'' # fmt_02d m) = m"
  using split_dash_key [OF str_nat_no_dash fmt_02d_no_dash, of y m]
  by (simp add: key_year_def key_month_def int_of_str_str_nat int_of_str_fmt_02d)

lemma dated_key:
  "dated r \<Longrightarrow> \<exists>d. Curve_Date r = Some d \<and> dt_year d = key_year (month_key_of r)
       \<and> dt_month d = key_month (month_key_of r)"
  by (auto simp: dated_def month_key_of_def key_year_month split: option.splits)

subsection \<open>The grouping loop\<close>

lemma bucket_Nil: "bucket [] k = []"
  by (simp add: bucket_def)

lemma bucket_dict_append:
  "bucket (dict_append k g fd) k' = (if k' = k then bucket fd k @ g else bucket fd k')"
  by (simp add: bucket_def dict_append_def update_conv' split: option.splits)

lemma add_groups_Nil: "add_groups m [] fd = fd"
  by (simp add: add_groups_def)

lemma add_groups_Cons:
  "add_groups m ((ym, g) # groups) fd =
     add_groups m groups
       (if truthy m \<and> Some (snd ym) \<noteq> m then fd else dict_append (fst ym @ ''-'' @ snd ym) g fd)"
  by (simp add: add_groups_def)

lemma bucket_add_groups:
  "bucket (add_groups m groups fd) k =
     bucket fd k @
     concat (map snd (filter (\<lambda>(ym, g). \<not> (truthy m \<and> Some (snd ym) \<noteq> m)
                                        \<and> fst ym @ ''-'' @ snd ym = k) groups))"
proof (induction groups arbitrary: fd)
  case Nil
  show ?case by (simp add: add_groups_Nil)
next
  case (Cons x groups)
  obtain ym g where x: "x = (ym, g)" by (cases x)
  show ?case
    unfolding x add_groups_Cons Cons.IH
    by (simp add: bucket_dict_append)
qed

lemma mset_concat_groups:
  "distinct ks \<Longrightarrow>
   mset (concat (map (\<lambda>k0. filter (\<lambda>r. f r = k0) rs) (filter P ks))) =
   filter_mset (\<lambda>r. f r \<in> set ks \<and> P (f r)) (mset rs)"
proof (induction ks)
  case Nil
  then show ?case by simp
next
  case (Cons k0 ks)
  then have IH: "mset (concat (map (\<lambda>k0. filter (\<lambda>r. f r = k0) rs) (filter P ks))) =
       filter_mset (\<lambda>r. f r \<in> set ks \<and> P (f r)) (mset rs)"
    and k0: "k0 \<notin> set ks" by simp_all
  show ?case
  proof (cases "P k0")
    case True
    with IH k0 show ?thesis
      by (auto intro!: multiset_eqI)
  next
    case False
    with IH k0 show ?thesis
      by (auto intro!: multiset_eqI)
  qed
qed

lemma groupby_Nil: "groupby_year_month [] = []"
  by (simp add: groupby_year_month_def)

lemma mset_bucket_groupby:
  assumes "truthy m \<Longrightarrow> \<forall>r \<in> set df. Some (month r) = m"
  shows "mset (bucket (add_groups m (groupby_year_month df) fd) k) =
         mset (bucket fd k) + filter_mset (\<lambda>r. month_key_of r = k) (mset df)"
proof -
  let ?ks = "sort (remdups (map (\<lambda>r. (year r, month r)) df))"
  let ?P = "\<lambda>ym. \<not> (truthy m \<and> Some (snd ym) \<noteq> m) \<and> fst ym @ ''-'' @ snd ym = k"
  have "concat (map snd (filter (\<lambda>(ym, g). ?P ym) (groupby_year_month df))) =
        concat (map (\<lambda>k0. filter (\<lambda>r. (year r, month r) = k0) df) (filter ?P ?ks))"
    unfolding groupby_year_month_def
    by (simp add: filter_map comp_def case_prod_unfold)
  moreover have "distinct ?ks" by simp
  ultimately have "mset (concat (map snd (filter (\<lambda>(ym, g). ?P ym) (groupby_year_month df)))) =
      filter_mset (\<lambda>r. (year r, month r) \<in> set ?ks \<and> ?P (year r, month r)) (mset df)"
    using mset_concat_groups [of ?ks "\<lambda>r. (year r, month r)" df ?P] by simp
  also have "\<dots> = filter_mset (\<lambda>r. month_key_of r = k) (mset df)"
    using assms by (auto intro!: filter_mset_cong simp: month_key_of_def)
  finally show ?thesis
    by (simp add: bucket_add_groups case_prod_unfold)
qed

subsection \<open>Rows kept by the two stages\<close>

lemma set_map_filter: "set (List.map_filter f xs) = {y. \<exists>x \<in> set xs. f x = Some y}"
  by (induction xs) (auto split: option.splits)

lemma curve_row_dated: "curve_row r = Some fr \<Longrightarrow> dated fr"
  by (auto simp: curve_row_def dated_def split: option.splits)

lemma vol_row_dated: "vol_row r = Some fr \<Longrightarrow> dated fr"
  by (auto simp: vol_row_def dated_def split: option.splits)

lemma curve_filtered_dated: "fr \<in> set (curve_filtered y tc ts m rs) \<Longrightarrow> dated fr"
  by (auto simp: curve_filtered_def Let_def set_map_filter dest: curve_row_dated split: if_splits)

lemma curve_filtered_month:
  "truthy m \<Longrightarrow> fr \<in> set (curve_filtered y tc ts m rs) \<Longrightarrow> Some (month fr) = m"
  by (auto simp: curve_filtered_def Let_def)

lemma vol_filtered_dated: "fr \<in> set (vol_filtered a rs) \<Longrightarrow> dated fr"
  by (auto simp: vol_filtered_def set_map_filter dest: vol_row_dated)

lemma vol_filtered_month:
  "truthy (arg_month a) \<Longrightarrow> fr \<in> set (vol_filtered a rs) \<Longrightarrow> Some (month fr) = arg_month a"
  by (auto simp: vol_filtered_def vol_mask_def)

lemma curve_file_rows_dated: "fr \<in> set (curve_file_rows y tc ts m f) \<Longrightarrow> dated fr"
  by (auto simp: curve_file_rows_def dest: curve_filtered_dated split: if_splits option.splits)

lemma curve_file_rows_month:
  "truthy m \<Longrightarrow> fr \<in> set (curve_file_rows y tc ts m f) \<Longrightarrow> Some (month fr) = m"
  by (auto simp: curve_file_rows_def dest: curve_filtered_month split: if_splits option.splits)

lemma vol_file_rows_dated: "fr \<in> set (vol_file_rows a f) \<Longrightarrow> dated fr"
  by (auto simp: vol_file_rows_def dest: vol_filtered_dated split: if_splits option.splits)

lemma vol_file_rows_month:
  "truthy (arg_month a) \<Longrightarrow> fr \<in> set (vol_file_rows a f) \<Longrightarrow> Some (month fr) = arg_month a"
  by (auto simp: vol_file_rows_def dest: vol_filtered_month split: if_splits option.splits)

lemma curve_step_rows:
  "curve_step y tc ts m fd f = add_groups m (groupby_year_month (curve_file_rows y tc ts m f)) fd"
  by (simp add: curve_step_def curve_file_rows_def groupby_Nil add_groups_Nil split: option.splits)

lemma vol_step_rows:
  "vol_step a fd f = Inr fd' \<Longrightarrow>
   fd' = add_groups (arg_month a) (groupby_year_month (vol_file_rows a f)) fd"
  by (auto simp: vol_step_def vol_file_rows_def groupby_Nil add_groups_Nil Let_def
           split: option.splits if_splits)

lemma mset_bucket_curve_foldl:
  "mset (bucket (foldl (curve_step y tc ts m) fd files) k) =
     mset (bucket fd k) +
     filter_mset (\<lambda>r. month_key_of r = k) (mset (concat (map (curve_file_rows y tc ts m) files)))"
proof (induction files arbitrary: fd)
  case Nil
  show ?case by simp
next
  case (Cons f files)
  have "mset (bucket (curve_step y tc ts m fd f) k) =
        mset (bucket fd k) +
        filter_mset (\<lambda>r. month_key_of r = k) (mset (curve_file_rows y tc ts m f))"
    unfolding curve_step_rows
    by (rule mset_bucket_groupby) (simp add: curve_file_rows_month)
  then show ?case
    by (simp add: Cons.IH)
qed

lemma mset_bucket_vol:
  "vol_file_dict a fd files = Inr fd' \<Longrightarrow>
   mset (bucket fd' k) =
     mset (bucket fd k) +
     filter_mset (\<lambda>r. month_key_of r = k) (mset (concat (map (vol_file_rows a) files)))"
proof (induction files arbitrary: fd)
  case Nil
  then show ?case by simp
next
  case (Cons f files)
  from Cons.prems obtain fd1 where s: "vol_step a fd f = Inr fd1"
    and r: "vol_file_dict a fd1 files = Inr fd'"
    by (auto split: sum.splits)
  have "mset (bucket fd1 k) =
        mset (bucket fd k) + filter_mset (\<lambda>r. month_key_of r = k) (mset (vol_file_rows a f))"
    unfolding vol_step_rows [OF s]
    by (rule mset_bucket_groupby) (simp add: vol_file_rows_month)
  with Cons.IH [OF r] show ?case
    by simp
qed

lemma mset_bucket_curve:
  "mset (bucket (curve_file_dict files y tc ts m) k) =
     filter_mset (\<lambda>r. month_key_of r = k) (mset (concat (map (curve_file_rows y tc ts m) files)))"
  by (simp add: curve_file_dict_def mset_bucket_curve_foldl bucket_Nil)

lemma grouping_from_mset:
  assumes eq: "\<And>k. mset (bucket fd k) = filter_mset (\<lambda>r. month_key_of r = k) (mset kept)"
    and dated: "\<And>r. r \<in> set kept \<Longrightarrow> dated r"
  shows "(\<forall>k. \<forall>r \<in> set (bucket fd k).
            \<exists>d. Curve_Date r = Some d \<and> dt_year d = key_year k \<and> dt_month d = key_month k)
       \<and> (\<forall>r \<in> set kept. \<exists>!k. r \<in> set (bucket fd k))"
proof -
  have mem: "r \<in> set (bucket fd k) \<longleftrightarrow> r \<in> set kept \<and> month_key_of r = k" for r k
  proof -
    have "r \<in> set (bucket fd k) \<longleftrightarrow> r \<in># mset (bucket fd k)" by simp
    also have "\<dots> \<longleftrightarrow> r \<in># filter_mset (\<lambda>r. month_key_of r = k) (mset kept)"
      by (simp only: eq)
    also have "\<dots> \<longleftrightarrow> r \<in> set kept \<and> month_key_of r = k" by auto
    finally show ?thesis .
  qed
  show ?thesis
    using dated dated_key by (auto simp: mem)
qed

text \<open>
  C1. Every row in a year-month bucket of either filter stage has, in its own
  \<open>Curve_Date\<close>, the year and the month the bucket key names; every row a stage keeps
  lies in exactly one bucket; and the bucket of a key holds, with multiplicities, the
  kept rows whose own year and month give that key, whatever file or folder they were
  read from.
\<close>

theorem filter_buckets_follow_curve_date:
  "(let fd = curve_file_dict files y tc ts m;
        kept = concat (map (curve_file_rows y tc ts m) files)
    in (\<forall>k. \<forall>r \<in> set (bucket fd k).
          \<exists>d. Curve_Date r = Some d \<and> dt_year d = key_year k \<and> dt_month d = key_month k)
       \<and> (\<forall>r \<in> set kept. \<exists>!k. r \<in> set (bucket fd k))
       \<and> (\<forall>k. mset (bucket fd k) = filter_mset (\<lambda>r. month_key_of r = k) (mset kept)))
   \<and> (\<forall>fd. vol_file_dict a [] files = Inr fd \<longrightarrow>
        (let kept = concat (map (vol_file_rows a) files)
         in (\<forall>k. \<forall>r \<in> set (bucket fd k).
               \<exists>d. Curve_Date r = Some d \<and> dt_year d = key_year k \<and> dt_month d = key_month k)
            \<and> (\<forall>r \<in> set kept. \<exists>!k. r \<in> set (bucket fd k))
            \<and> (\<forall>k. mset (bucket fd k) = filter_mset (\<lambda>r. month_key_of r = k) (mset kept))))"
proof -
  let ?cfd = "curve_file_dict files y tc ts m"
  let ?ckept = "concat (map (curve_file_rows y tc ts m) files)"
  have c_eq: "mset (bucket ?cfd k) = filter_mset (\<lambda>r. month_key_of r = k) (mset ?ckept)" for k
    by (rule mset_bucket_curve)
  have c_dated: "dated r" if "r \<in> set ?ckept" for r
    using that by (auto dest: curve_file_rows_dated)
  note c = grouping_from_mset [of ?cfd ?ckept, OF c_eq c_dated]
  have v: "(\<forall>k. \<forall>r \<in> set (bucket fd k).
               \<exists>d. Curve_Date r = Some d \<and> dt_year d = key_year k \<and> dt_month d = key_month k)
            \<and> (\<forall>r \<in> set (concat (map (vol_file_rows a) files)). \<exists>!k. r \<in> set (bucket fd k))
            \<and> (\<forall>k. mset (bucket fd k) =
                  filter_mset (\<lambda>r. month_key_of r = k) (mset (concat (map (vol_file_rows a) files))))"
    if ok: "vol_file_dict a [] files = Inr fd" for fd
  proof -
    let ?vkept = "concat (map (vol_file_rows a) files)"
    have v_eq: "mset (bucket fd k) = filter_mset (\<lambda>r. month_key_of r = k) (mset ?vkept)" for k
      using mset_bucket_vol [OF ok, of k] by (simp add: bucket_Nil)
    have v_dated: "dated r" if "r \<in> set ?vkept" for r
      using that by (auto dest: vol_file_rows_dated)
    from grouping_from_mset [of fd ?vkept, OF v_eq v_dated] v_eq show ?thesis
      by blast
  qed
  from c c_eq v show ?thesis
    unfolding Let_def by blast
qed

theorem filter_buckets_follow_curve_date_witness:
  "ex_jan \<in> set (bucket (curve_file_dict [ex_file] ''2024'' [''nymex''] [''ATM''] None) ''2024-01'')
   \<and> (\<exists>d. Curve_Date ex_jan = Some d \<and> dt_year d = key_year ''2024-01''
            \<and> dt_month d = key_month ''2024-01'')
   \<and> ex_jan \<in> set (concat (map (curve_file_rows ''2024'' [''nymex''] [''ATM''] None) [ex_file]))
   \<and> (\<exists>!k. ex_jan \<in> set (bucket (curve_file_dict [ex_file] ''2024'' [''nymex''] [''ATM''] None) k))
   \<and> vol_file_dict ex_vol_args [] [ex_file] =
       Inr [(''2024-01'', [[ex_jan\<lparr>Call_Put := Some ''EWMA''\<rparr>]]), (''2024-02'', [[ex_feb]])]
   \<and> (\<exists>d. Curve_Date ex_feb = Some d \<and> dt_year d = key_year ''2024-02''
            \<and> dt_month d = key_month ''2024-02'')
   \<and> (\<exists>!k. ex_feb \<in> set (bucket
              [(''2024-01'', [[ex_jan\<lparr>Call_Put := Some ''EWMA''\<rparr>]]), (''2024-02'', [[ex_feb]])] k))"
proof -
  let ?fd = "curve_file_dict [ex_file] ''2024'' [''nymex''] [''ATM''] None"
  let ?vfd = "[(''2024-01'', [[ex_jan\<lparr>Call_Put := Some ''EWMA''\<rparr>]]), (''2024-02'', [[ex_feb]])]"
  have b: "bucket ?fd ''2024-01'' = [ex_jan]"
    by (simp add: str_eval date_eval curve_eval ex_eval group_eval)
  have k: "curve_file_rows ''2024'' [''nymex''] [''ATM''] None ex_file = [ex_jan, ex_feb]"
    by (simp add: str_eval date_eval curve_eval ex_eval)
  have v: "vol_file_dict ex_vol_args [] [ex_file] = Inr ?vfd"
    by (simp add: str_eval date_eval vol_eval ex_eval group_eval)
  have vk: "vol_file_rows ex_vol_args ex_file = [ex_jan\<lparr>Call_Put := Some ''EWMA''\<rparr>, ex_feb]"
    by (simp add: str_eval date_eval vol_eval ex_eval)
  have vb: "bucket ?vfd ''2024-02'' = [ex_feb]"
    by (simp add: bucket_def)
  note t = filter_buckets_follow_curve_date
    [of "[ex_file]" "''2024''" "[''nymex'']" "[''ATM'']" None ex_vol_args, unfolded Let_def]
  from t have "\<forall>r \<in> set (bucket ?fd ''2024-01'').
      \<exists>d. Curve_Date r = Some d \<and> dt_year d = key_year ''2024-01'' \<and> dt_month d = key_month ''2024-01''"
    by blast
  then have 1: "\<exists>d. Curve_Date ex_jan = Some d \<and> dt_year d = key_year ''2024-01''
      \<and> dt_month d = key_month ''2024-01''"
    by (simp add: b)
  from t have "\<forall>r \<in> set (concat (map (curve_file_rows ''2024'' [''nymex''] [''ATM''] None) [ex_file])).
      \<exists>!k. r \<in> set (bucket ?fd k)"
    by blast
  then have 2: "\<exists>!k. ex_jan \<in> set (bucket ?fd k)"
    by (simp add: k)
  from t v have "\<forall>r \<in> set (bucket ?vfd ''2024-02'').
      \<exists>d. Curve_Date r = Some d \<and> dt_year d = key_year ''2024-02'' \<and> dt_month d = key_month ''2024-02''"
    by blast
  then have 3: "\<exists>d. Curve_Date ex_feb = Some d \<and> dt_year d = key_year ''2024-02''
      \<and> dt_month d = key_month ''2024-02''"
    by (simp add: vb)
  from t v have "\<forall>r \<in> set (concat (map (vol_file_rows ex_vol_args) [ex_file])).
      \<exists>!k. r \<in> set (bucket ?vfd k)"
    by blast
  then have 4: "\<exists>!k. ex_feb \<in> set (bucket ?vfd k)"
    by (simp add: vk)
  from b k v 1 2 3 4 show ?thesis
    by simp
qed

subsection \<open>Missing columns\<close>

lemmas out_eval = to_csv_def sorted_listdir_def vol_out_path_def vol_curve_name_def
  vol_combine_def filter_vol_data_def

text \<open>
  C2. A file without the column \<open>Basis\<close> is skipped by \<open>extract_curve_data\<close>, whose
  buckets are those of the remaining files; \<open>filter_vol_data\<close> indexes \<open>df['Basis']\<close>
  before any check, so the same file ends the whole stage with \<open>KeyError\<close>.
\<close>

theorem filter_vol_data_missing_basis_raises:
  "filter_vol_data [ex_no_basis, ex_file] [] ex_vol_args = Inl KeyError
   \<and> curve_file_dict [ex_no_basis, ex_file] ''2024'' [''nymex''] [''ATM''] None =
       curve_file_dict [ex_file] ''2024'' [''nymex''] [''ATM''] None"
  by (simp add: str_eval vol_eval out_eval curve_eval ex_no_basis_def)

subsection \<open>Monthly files\<close>

lemma ex_two_years_file_dict:
  "vol_file_dict ex_range_args [] [ex_two_years] =
     Inr [(''2023-02'', [[ex_feb23]]), (''2024-02'', [[ex_feb24]])]"
  by (simp add: str_eval date_eval vol_eval group_eval ex_two_years_def ex_feb23_def
        ex_feb24_def ex_range_args_def)

lemma ex_two_years_paths:
  "vol_out_path ex_range_args ''2023-02'' = Inr ''NYMEX_02_ewma_hist.csv''
   \<and> vol_out_path ex_range_args ''2024-02'' = Inr ''NYMEX_02_ewma_hist.csv''"
  by (simp add: out_eval ex_range_args_def)

text \<open>
  C3. With a date range over two years, \<open>filter_vol_data\<close> holds the buckets
  \<open>2023-02\<close> and \<open>2024-02\<close>, names the file of both \<open>NYMEX_02_ewma_hist.csv\<close>, and
  the second write replaces the first: the row of February 2023 is in no file of the
  output folder.
\<close>

theorem filter_vol_data_same_month_overwrites:
  "vol_file_dict ex_range_args [] [ex_two_years] =
     Inr [(''2023-02'', [[ex_feb23]]), (''2024-02'', [[ex_feb24]])]
   \<and> vol_out_path ex_range_args ''2023-02'' = vol_out_path ex_range_args ''2024-02''
   \<and> filter_vol_data [ex_two_years] [] ex_range_args =
       Inr [(''NYMEX_02_ewma_hist.csv'', [ex_feb24]),
            (''NYMEX_2024_ewma_hist_combined.csv'', [ex_feb24])]"
  using ex_two_years_file_dict ex_two_years_paths
  by (simp add: filter_vol_data_def vol_combine_def sorted_listdir_def to_csv_def
        endswith_def vol_curve_name_def ex_range_args_def)

subsection \<open>The yearly file\<close>

lemma mset_concat_cong:
  "mset xs = mset ys \<Longrightarrow> mset (concat (map f xs)) = mset (concat (map f ys))"
proof -
  assume eq: "mset xs = mset ys"
  have "mset (concat (map f zs)) = sum_mset (image_mset (\<lambda>z. mset (f z)) (mset zs))" for zs
    by (induction zs) simp_all
  with eq show ?thesis by simp
qed

lemma mset_concat_sorted_listdir:
  "mset (concat (map snd (filter P (sorted_listdir out)))) = mset (concat (map snd (filter P out)))"
  by (rule mset_concat_cong) (simp add: sorted_listdir_def)

lemma set_update_subset: "set (AList.update k v al) \<subseteq> insert (k, v) (set al)"
  by (induction al) auto

lemma set_curve_write_months:
  "set (curve_write_months fd out) \<subseteq> set out \<union> (\<lambda>(k, gs). (k @ ''.csv'', concat gs)) ` set fd"
proof (induction fd arbitrary: out)
  case Nil
  show ?case by (simp add: curve_write_months_def)
next
  case (Cons x fd)
  obtain k gs where x: "x = (k, gs)" by (cases x)
  let ?out' = "to_csv (k @ ''.csv'') (concat gs) out"
  have step: "curve_write_months ((k, gs) # fd) out = curve_write_months fd ?out'"
    by (simp add: curve_write_months_def)
  have "set ?out' \<subseteq> insert (k @ ''.csv'', concat gs) (set out)"
    unfolding to_csv_def by (rule set_update_subset)
  moreover have "set (curve_write_months fd ?out') \<subseteq>
      set ?out' \<union> (\<lambda>(k, gs). (k @ ''.csv'', concat gs)) ` set fd"
    by (rule Cons.IH)
  ultimately have "set (curve_write_months fd ?out') \<subseteq>
      insert (k @ ''.csv'', concat gs) (set out) \<union> (\<lambda>(k, gs). (k @ ''.csv'', concat gs)) ` set fd"
    by blast
  then show ?case
    by (simp add: step x)
qed

lemma keys_dict_append: "fst ` set (dict_append k g fd) = insert k (fst ` set fd)"
  by (simp add: dict_append_def dom_update)

lemma keys_add_groups:
  "fst ` set (add_groups m groups fd) \<subseteq>
     fst ` set fd \<union> (\<lambda>(ym, g). fst ym @ ''-'' @ snd ym) ` set groups"
proof (induction groups arbitrary: fd)
  case Nil
  show ?case by (simp add: add_groups_Nil)
next
  case (Cons x groups)
  obtain ym g where x: "x = (ym, g)" by (cases x)
  let ?K = "(\<lambda>(ym, g). fst ym @ ''-'' @ snd ym) ` set groups"
  show ?case
  proof (cases "truthy m \<and> Some (snd ym) \<noteq> m")
    case True
    then have "add_groups m (x # groups) fd = add_groups m groups fd"
      by (simp add: x add_groups_Cons)
    with Cons.IH [of fd] show ?thesis by auto
  next
    case False
    let ?fd' = "dict_append (fst ym @ ''-'' @ snd ym) g fd"
    have "add_groups m (x # groups) fd = add_groups m groups ?fd'"
      by (simp only: x add_groups_Cons False if_False)
    moreover have "fst ` set (add_groups m groups ?fd') \<subseteq> fst ` set ?fd' \<union> ?K"
      by (rule Cons.IH)
    moreover have "fst ` set ?fd' = insert (fst ym @ ''-'' @ snd ym) (fst ` set fd)"
      by (rule keys_dict_append)
    ultimately show ?thesis
      by (auto simp: x)
  qed
qed

lemma keys_groupby:
  "(ym, g) \<in> set (groupby_year_month df) \<Longrightarrow> \<exists>r \<in> set df. ym = (year r, month r)"
  by (auto simp: groupby_year_month_def)

lemma curve_file_rows_year: "fr \<in> set (curve_file_rows y tc ts m f) \<Longrightarrow> year fr = y"
  by (auto simp: curve_file_rows_def curve_filtered_def Let_def split: if_splits option.splits)

lemma keys_curve_step:
  "k \<in> fst ` set (curve_step y tc ts m fd f) \<Longrightarrow> k \<in> fst ` set fd \<or> startswith k (y @ ''-'')"
proof -
  assume "k \<in> fst ` set (curve_step y tc ts m fd f)"
  then have "k \<in> fst ` set (add_groups m (groupby_year_month (curve_file_rows y tc ts m f)) fd)"
    by (simp only: curve_step_rows)
  with keys_add_groups [of m "groupby_year_month (curve_file_rows y tc ts m f)" fd]
  have "k \<in> fst ` set fd \<or>
      k \<in> (\<lambda>(ym, g). fst ym @ ''-'' @ snd ym) ` set (groupby_year_month (curve_file_rows y tc ts m f))"
    by blast
  then show ?thesis
  proof
    assume "k \<in> fst ` set fd"
    then show ?thesis ..
  next
    assume "k \<in> (\<lambda>(ym, g). fst ym @ ''-'' @ snd ym) `
                 set (groupby_year_month (curve_file_rows y tc ts m f))"
    then obtain ym g where mem: "(ym, g) \<in> set (groupby_year_month (curve_file_rows y tc ts m f))"
      and k: "k = fst ym @ ''-'' @ snd ym"
      by auto
    from keys_groupby [OF mem] obtain r where "r \<in> set (curve_file_rows y tc ts m f)"
      and "ym = (year r, month r)" by blast
    with curve_file_rows_year [of r y tc ts m f] have "fst ym = y" by simp
    with k have "startswith k (y @ ''-'')"
      by (simp add: startswith_def)
    then show ?thesis ..
  qed
qed

lemma keys_curve_foldl:
  "k \<in> fst ` set (foldl (curve_step y tc ts m) fd files) \<Longrightarrow>
   k \<in> fst ` set fd \<or> startswith k (y @ ''-'')"
proof (induction files arbitrary: fd)
  case Nil
  then show ?case by simp
next
  case (Cons f files)
  from Cons.prems have "k \<in> fst ` set (foldl (curve_step y tc ts m) (curve_step y tc ts m fd f) files)"
    by simp
  from Cons.IH [OF this] show ?case
    using keys_curve_step by blast
qed

lemma keys_curve_file_dict:
  "(k, gs) \<in> set (curve_file_dict files y tc ts m) \<Longrightarrow> startswith k (y @ ''-'')"
  using keys_curve_foldl [of k y tc ts m "[]" files]
  by (force simp: curve_file_dict_def)

lemma startswith_append: "startswith k p \<Longrightarrow> startswith (k @ s) p"
proof -
  assume "startswith k p"
  then have t: "take (length p) k = p" by (simp add: startswith_def)
  then have "length (take (length p) k) = length p" by simp
  then have "length p \<le> length k" by simp
  with t show ?thesis
    by (simp add: startswith_def)
qed

lemma monthly_artifacts_sorted_Nil:
  "(filter P (sorted_listdir out) = []) = (filter P out = [])"
  by (simp add: sorted_listdir_def filter_empty_conv)

lemma monthly_written_same_year:
  assumes old: "\<forall>(f, df) \<in> set (monthly_artifacts out). startswith f (y @ ''-'')"
  shows "monthly_artifacts_of_year y (curve_write_months (curve_file_dict files y tc ts m) out) =
         monthly_artifacts (curve_write_months (curve_file_dict files y tc ts m) out)"
proof -
  let ?fd = "curve_file_dict files y tc ts m"
  let ?out1 = "curve_write_months ?fd out"
  have "startswith f (y @ ''-'')" if mem: "(f, df) \<in> set (monthly_artifacts ?out1)" for f df
  proof -
    from mem have in1: "(f, df) \<in> set ?out1"
      and pat: "endswith f ''.csv'' \<and> re_match_month f"
      by (simp_all add: monthly_artifacts_def)
    from in1 set_curve_write_months [of ?fd out]
    have "(f, df) \<in> set out \<or> (f, df) \<in> (\<lambda>(k, gs). (k @ ''.csv'', concat gs)) ` set ?fd"
      by blast
    then show ?thesis
    proof
      assume "(f, df) \<in> set out"
      with pat have "(f, df) \<in> set (monthly_artifacts out)"
        by (simp add: monthly_artifacts_def)
      with old show ?thesis by blast
    next
      assume "(f, df) \<in> (\<lambda>(k, gs). (k @ ''.csv'', concat gs)) ` set ?fd"
      then obtain k gs where kg: "(k, gs) \<in> set ?fd" and f: "f = k @ ''.csv''"
        by (auto simp: image_iff)
      from keys_curve_file_dict [OF kg] have "startswith k (y @ ''-'')" .
      then show ?thesis
        unfolding f by (rule startswith_append)
    qed
  qed
  then have "\<forall>x \<in> set (monthly_artifacts ?out1). case x of (f, df) \<Rightarrow> startswith f (y @ ''-'')"
    by auto
  then show ?thesis
    unfolding monthly_artifacts_of_year_def by (rule filter_True)
qed

text \<open>
  C4 (as amended). When the folder holds a monthly artifact after the monthly writes,
  \<open>extract_curve_data\<close> writes \<open>{year}_combined.csv\<close>, whose rows are, as a
  multiset, the rows of every file of the folder that matches the month pattern,
  whatever year its name carries; they are the rows of the monthly artifacts of that year
  when the folder held no monthly artifact of another year before the call. With no
  monthly artifact in the folder, no combined file is written.
\<close>

theorem combined_holds_all_monthly_artifacts:
  "(let out1 = curve_write_months (curve_file_dict files y tc ts m) out;
        out2 = extract_curve_data files out y tc ts m
    in (monthly_artifacts out1 = [] \<longrightarrow> out2 = out1)
       \<and> (monthly_artifacts out1 \<noteq> [] \<longrightarrow>
            (\<exists>combined. map_of out2 (y @ ''_combined.csv'') = Some combined
               \<and> mset combined = mset (concat (map snd (monthly_artifacts out1)))
               \<and> ((\<forall>(f, df) \<in> set (monthly_artifacts out). startswith f (y @ ''-'')) \<longrightarrow>
                    mset combined =
                    mset (concat (map snd (monthly_artifacts_of_year y out1)))))))"
proof -
  define out1 where "out1 = curve_write_months (curve_file_dict files y tc ts m) out"
  define c where "c = concat (map snd (filter (\<lambda>(f, df). endswith f ''.csv'' \<and> re_match_month f)
                                         (sorted_listdir out1)))"
  have ex: "extract_curve_data files out y tc ts m =
      (if monthly_artifacts out1 \<noteq> [] then to_csv (y @ ''_combined.csv'') c out1 else out1)"
    unfolding extract_curve_data_def curve_combine_def Let_def out1_def [symmetric] c_def
      monthly_artifacts_def
    by (simp only: map_is_Nil_conv monthly_artifacts_sorted_Nil)
  have look: "map_of (to_csv (y @ ''_combined.csv'') c out1) (y @ ''_combined.csv'') = Some c"
    by (simp add: to_csv_def update_conv')
  have all: "mset c = mset (concat (map snd (monthly_artifacts out1)))"
    unfolding monthly_artifacts_def c_def by (rule mset_concat_sorted_listdir)
  have year: "mset c = mset (concat (map snd (monthly_artifacts_of_year y out1)))"
    if "\<forall>(f, df) \<in> set (monthly_artifacts out). startswith f (y @ ''-'')"
    using all monthly_written_same_year [OF that, of files tc ts m]
    by (simp only: out1_def)
  have 1: "monthly_artifacts out1 = [] \<longrightarrow> extract_curve_data files out y tc ts m = out1"
    by (simp add: ex)
  have 2: "monthly_artifacts out1 \<noteq> [] \<longrightarrow>
            (\<exists>combined. map_of (extract_curve_data files out y tc ts m) (y @ ''_combined.csv'')
                 = Some combined
               \<and> mset combined = mset (concat (map snd (monthly_artifacts out1)))
               \<and> ((\<forall>(f, df) \<in> set (monthly_artifacts out). startswith f (y @ ''-'')) \<longrightarrow>
                    mset combined =
                    mset (concat (map snd (monthly_artifacts_of_year y out1)))))"
  proof
    assume ne: "monthly_artifacts out1 \<noteq> []"
    then have "extract_curve_data files out y tc ts m = to_csv (y @ ''_combined.csv'') c out1"
      by (simp add: ex)
    with look have "map_of (extract_curve_data files out y tc ts m) (y @ ''_combined.csv'') = Some c"
      by simp
    with all year show "\<exists>combined. map_of (extract_curve_data files out y tc ts m)
                 (y @ ''_combined.csv'') = Some combined
               \<and> mset combined = mset (concat (map snd (monthly_artifacts out1)))
               \<and> ((\<forall>(f, df) \<in> set (monthly_artifacts out). startswith f (y @ ''-'')) \<longrightarrow>
                    mset combined =
                    mset (concat (map snd (monthly_artifacts_of_year y out1))))"
      by blast
  qed
  from 1 2 show ?thesis
    unfolding Let_def out1_def by (rule conjI)
qed

lemma ex_file_dict:
  "curve_file_dict [ex_file] ''2024'' [''nymex''] [''ATM''] None =
     [(''2024-01'', [[ex_jan]]), (''2024-02'', [[ex_feb]])]"
  by (simp add: str_eval date_eval curve_eval ex_eval group_eval)

lemma ex_stale_2023_months:
  "curve_write_months [(''2024-01'', [[ex_jan]]), (''2024-02'', [[ex_feb]])] ex_stale_2023 =
     [(''2023-05.csv'', [ex_may23]), (''2024-01.csv'', [ex_jan]), (''2024-02.csv'', [ex_feb])]"
  by (simp add: curve_write_months_def to_csv_def ex_stale_2023_def)

text \<open>
  The combined file of 2024 written into a folder that already holds \<open>2023-05.csv\<close>
  contains the row of that file, which no monthly artifact of 2024 contains.
\<close>

theorem combined_other_year_counterexample:
  "map_of (extract_curve_data [ex_file] ex_stale_2023 ''2024'' [''nymex''] [''ATM''] None)
       ''2024_combined.csv'' = Some [ex_may23, ex_jan, ex_feb]
   \<and> concat (map snd (monthly_artifacts_of_year ''2024''
         (extract_curve_data [ex_file] ex_stale_2023 ''2024'' [''nymex''] [''ATM''] None))) =
       [ex_jan, ex_feb]
   \<and> mset [ex_may23, ex_jan, ex_feb] \<noteq> mset [ex_jan, ex_feb]"
proof -
  have e: "extract_curve_data [ex_file] ex_stale_2023 ''2024'' [''nymex''] [''ATM''] None =
     [(''2023-05.csv'', [ex_may23]), (''2024-01.csv'', [ex_jan]), (''2024-02.csv'', [ex_feb]),
      (''2024_combined.csv'', [ex_may23, ex_jan, ex_feb])]"
    by (simp add: extract_curve_data_def ex_file_dict ex_stale_2023_months curve_combine_def
          sorted_listdir_def re_match_month_def isdigit_def endswith_def to_csv_def)
  have "mset [ex_may23, ex_jan, ex_feb] \<noteq> mset [ex_jan, ex_feb]"
    by (metis size_mset length_Cons list.size(3) n_not_Suc_n)
  then show ?thesis
    by (simp add: e monthly_artifacts_of_year_def monthly_artifacts_def re_match_month_def
          isdigit_def endswith_def startswith_def)
qed

lemma ex_stale_2024_months:
  "curve_write_months (curve_file_dict [ex_file] ''2024'' [''nymex''] [''ATM''] None) ex_stale_2024 =
     [(''2024-03.csv'', [ex_mar24]), (''2024-01.csv'', [ex_jan]), (''2024-02.csv'', [ex_feb])]"
  by (simp add: ex_file_dict curve_write_months_def to_csv_def ex_stale_2024_def)

theorem combined_holds_all_monthly_artifacts_witness:
  "monthly_artifacts
     (curve_write_months (curve_file_dict [ex_file] ''2024'' [''nymex''] [''ATM''] None)
        ex_stale_2024) \<noteq> []
   \<and> list_all (\<lambda>(f, df). startswith f ''2024-'') (monthly_artifacts ex_stale_2024)
   \<and> (\<exists>combined.
         map_of (extract_curve_data [ex_file] ex_stale_2024 ''2024'' [''nymex''] [''ATM''] None)
           ''2024_combined.csv'' = Some combined
         \<and> mset combined = mset [ex_mar24, ex_jan, ex_feb]
         \<and> mset combined =
             mset (concat (map snd (monthly_artifacts_of_year ''2024''
               (curve_write_months (curve_file_dict [ex_file] ''2024'' [''nymex''] [''ATM''] None)
                  ex_stale_2024)))))"
proof -
  let ?out1 = "curve_write_months (curve_file_dict [ex_file] ''2024'' [''nymex''] [''ATM''] None)
        ex_stale_2024"
  have m: "monthly_artifacts ?out1 =
      [(''2024-03.csv'', [ex_mar24]), (''2024-01.csv'', [ex_jan]), (''2024-02.csv'', [ex_feb])]"
    by (simp add: ex_stale_2024_months monthly_artifacts_def re_match_month_def isdigit_def
          endswith_def)
  have ne: "monthly_artifacts ?out1 \<noteq> []"
    by (simp add: m)
  have old: "list_all (\<lambda>(f, df). startswith f ''2024-'') (monthly_artifacts ex_stale_2024)"
    by (simp add: ex_stale_2024_def monthly_artifacts_def re_match_month_def isdigit_def
          endswith_def startswith_def)
  then have old': "\<forall>(f, df) \<in> set (monthly_artifacts ex_stale_2024). startswith f (''2024'' @ ''-'')"
    by (simp add: list_all_iff)
  from combined_holds_all_monthly_artifacts
    [of "[ex_file]" "''2024''" "[''nymex'']" "[''ATM'']" None ex_stale_2024, unfolded Let_def]
    ne old'
  obtain combined where
    "map_of (extract_curve_data [ex_file] ex_stale_2024 ''2024'' [''nymex''] [''ATM''] None)
       (''2024'' @ ''_combined.csv'') = Some combined"
    and "mset combined = mset (concat (map snd (monthly_artifacts ?out1)))"
    and "mset combined = mset (concat (map snd (monthly_artifacts_of_year ''2024'' ?out1)))"
    by blast
  with ne old show ?thesis
    by (simp add: m)
qed

subsection \<open>The record readers\<close>

text \<open>
  C5 (as amended). The reader of vol_extractor.py returns what \<open>utf-8-sig\<close> parses,
  else what \<open>utf-16\<close> parses, and no data exactly when both fail; it has no size
  threshold and returns a result with zero rows as data. The reader of
  volatility_surface.py reads under \<open>utf-8\<close> alone, and returns no data exactly when
  the file is below 10 bytes, when that parse fails or when its result is empty. Both
  are total: every failure is the value \<open>None\<close>.
\<close>

theorem readers_return_no_data:
  "(vol_robust_read_csv f = None \<longleftrightarrow>
      read_csv f utf_8_sig bad_error = None \<and> read_csv f utf_16 bad_error = None)
   \<and> (\<forall>df. read_csv f utf_8_sig bad_error = Some df \<longrightarrow> vol_robust_read_csv f = Some df)
   \<and> (read_csv f utf_8_sig bad_error = None \<longrightarrow>
         vol_robust_read_csv f = read_csv f utf_16 bad_error)
   \<and> (surface_robust_read_csv f = None \<longleftrightarrow>
         getsize f < 10 \<or> read_csv f utf_8 bad_skip = None
         \<or> (\<exists>df. read_csv f utf_8 bad_skip = Some df \<and> df_empty df))
   \<and> (\<forall>df. surface_robust_read_csv f = Some df \<longrightarrow>
         read_csv f utf_8 bad_skip = Some df \<and> \<not> df_empty df \<and> 10 \<le> getsize f)"
  by (auto simp: vol_robust_read_csv_def surface_robust_read_csv_def
           split: option.splits if_splits)

theorem readers_return_no_data_witness:
  "read_csv ex_utf16 utf_8_sig bad_error = None
   \<and> vol_robust_read_csv ex_utf16 = read_csv ex_utf16 utf_16 bad_error
   \<and> vol_robust_read_csv ex_utf16 = Some ex_frame
   \<and> read_csv ex_utf16 utf_8 bad_skip = None
   \<and> surface_robust_read_csv ex_utf16 = None
   \<and> read_csv ex_file utf_8_sig bad_error = Some (the (read_csv ex_file utf_8 bad_skip))
   \<and> vol_robust_read_csv ex_file = Some (the (read_csv ex_file utf_8 bad_skip))
   \<and> surface_robust_read_csv ex_file = Some (the (read_csv ex_file utf_8 bad_skip))"
proof -
  have a: "read_csv ex_utf16 utf_8_sig bad_error = None"
    and b: "read_csv ex_utf16 utf_8 bad_skip = None"
    and c: "read_csv ex_utf16 utf_16 bad_error = Some ex_frame"
    by (simp_all add: ex_utf16_def)
  have d: "read_csv ex_file utf_8_sig bad_error = Some (the (read_csv ex_file utf_8 bad_skip))"
    by (simp add: ex_file_def)
  have e: "surface_robust_read_csv ex_file = Some (the (read_csv ex_file utf_8 bad_skip))"
    by (simp add: surface_robust_read_csv_def df_empty_def ex_file_def ex_rows_def)
  note t = readers_return_no_data [of ex_utf16]
  note u = readers_return_no_data [of ex_file]
  from t a have 1: "vol_robust_read_csv ex_utf16 = read_csv ex_utf16 utf_16 bad_error"
    by blast
  from t b have 2: "surface_robust_read_csv ex_utf16 = None"
    by blast
  from u d have 3: "vol_robust_read_csv ex_file = Some (the (read_csv ex_file utf_8 bad_skip))"
    by blast
  from a b c d e 1 2 3 show ?thesis
    by simp
qed

text \<open>
  A file of 4 bytes that parses to a header with no row is returned as data by the
  reader of vol_extractor.py; a file that only \<open>utf-16\<close> parses is no data for the
  reader of volatility_surface.py, which tries no second encoding.
\<close>

theorem readers_counterexample:
  "getsize ex_header_only < 10
   \<and> vol_robust_read_csv ex_header_only = Some \<lparr>columns = [''a'', ''b''], rows = []\<rparr>
   \<and> rows \<lparr>columns = [''a'', ''b''], rows = []\<rparr> = []
   \<and> read_csv ex_utf16 utf_16 bad_skip = Some ex_frame
   \<and> surface_robust_read_csv ex_utf16 = None"
  by (simp add: vol_robust_read_csv_def surface_robust_read_csv_def ex_header_only_def
        ex_utf16_def)

subsection \<open>Moneyness and the surface matrix\<close>

lemma map_filter_filter:
  "(\<And>x. \<not> P x \<Longrightarrow> f x = None) \<Longrightarrow> List.map_filter f (filter P xs) = List.map_filter f xs"
  by (induction xs) (auto split: option.splits)

lemma pivot_surface_mapped:
  "pivot_surface (filter (\<lambda>r. Moneyness r \<noteq> None) df) = pivot_surface df"
proof -
  let ?f = "\<lambda>r::srow. case (date r, Moneyness r) of
                           (Some d, Some m) \<Rightarrow> Some ((d, m), Mid r)
                         | _ \<Rightarrow> None"
  have "List.map_filter ?f (filter (\<lambda>r. Moneyness r \<noteq> None) df) = List.map_filter ?f df"
    by (rule map_filter_filter) (auto split: option.splits)
  then show ?thesis
    by (simp only: pivot_surface_def)
qed

lemma pivot_surface_cell:
  assumes "((d, m), v) \<in> set (pivot_surface df)"
  shows "\<exists>r \<in> set df. date r = Some d \<and> Moneyness r = Some m \<and> Mid r \<noteq> None"
proof -
  let ?f = "\<lambda>r::srow. case (date r, Moneyness r) of
                           (Some d, Some m) \<Rightarrow> Some ((d, m), Mid r)
                         | _ \<Rightarrow> None"
  let ?keyed = "List.map_filter ?f df"
  let ?vals = "\<lambda>k. List.map_filter (\<lambda>(k', v). if k' = k then v else None) ?keyed"
  from assms have "mean (?vals (d, m)) = Some v"
    by (auto simp: pivot_surface_def Let_def set_map_filter)
  then have "?vals (d, m) \<noteq> []"
    by (auto simp: mean_def split: if_splits)
  then obtain x where "x \<in> set (?vals (d, m))"
    by (cases "?vals (d, m)") auto
  then obtain c where "((d, m), c) \<in> set ?keyed" and "c = Some x"
    by (auto simp: set_map_filter split: if_splits)
  then obtain r where "r \<in> set df" and "?f r = Some ((d, m), Some x)"
    by (auto simp: set_map_filter)
  then show ?thesis
    by (auto split: option.splits)
qed

lemma surface_row_moneyness: "Moneyness (surface_row cols r) = moneyness_of (Type (surface_row cols r))"
  by (simp add: surface_row_def)

lemma surface_step_rows:
  "surface_step tm f = Inr (Some (cols, rs)) \<Longrightarrow> r \<in> set rs \<Longrightarrow>
   Moneyness r = moneyness_of (Type r)"
  by (auto simp: surface_step_def Let_def surface_row_moneyness split: if_splits option.splits)

lemma surface_step_error:
  "surface_step tm f = Inl e \<Longrightarrow>
   e = KeyError \<and> (\<exists>df. surface_robust_read_csv f = Some df \<and>
      (''Type'' \<notin> set (clean_columns (columns df)) \<or> ''Mid'' \<notin> set (clean_columns (columns df))))"
  by (auto simp: surface_step_def Let_def split: if_splits option.splits)

lemma surface_load_rows:
  "surface_load tm files = Inr all_data \<Longrightarrow> (cols, rs) \<in> set all_data \<Longrightarrow> r \<in> set rs \<Longrightarrow>
   Moneyness r = moneyness_of (Type r)"
proof (induction files arbitrary: all_data)
  case Nil
  then show ?case by simp
next
  case (Cons f files)
  from Cons.prems(1) obtain loaded rest where s: "surface_step tm f = Inr loaded"
    and l: "surface_load tm files = Inr rest"
    and a: "all_data = (case loaded of None \<Rightarrow> [] | Some df \<Rightarrow> [df]) @ rest"
    by (auto split: sum.splits)
  from Cons.prems(2) a have "loaded = Some (cols, rs) \<or> (cols, rs) \<in> set rest"
    by (auto split: option.splits)
  then show ?case
  proof
    assume "loaded = Some (cols, rs)"
    with s Cons.prems(3) show ?thesis
      by (auto dest: surface_step_rows)
  next
    assume "(cols, rs) \<in> set rest"
    from Cons.IH [OF l this Cons.prems(3)] show ?thesis .
  qed
qed

lemma surface_load_error:
  "surface_load tm files = Inl e \<Longrightarrow>
   e = KeyError \<and> (\<exists>f \<in> set files. \<exists>df. surface_robust_read_csv f = Some df \<and>
      (''Type'' \<notin> set (clean_columns (columns df)) \<or> ''Mid'' \<notin> set (clean_columns (columns df))))"
proof (induction files)
  case Nil
  then show ?case by simp
next
  case (Cons f files)
  show ?case
  proof (cases "surface_step tm f")
    case (Inl e')
    with Cons.prems have "e' = e" by simp
    with Inl surface_step_error [of tm f e] show ?thesis by auto
  next
    case (Inr loaded)
    with Cons.prems have "surface_load tm files = Inl e"
      by (auto split: sum.splits)
    from Cons.IH [OF this] show ?thesis by auto
  qed
qed

lemma period_surfaces_sel:
  assumes "(name, mat) \<in> set (period_surfaces tc label suffix df_all)"
  shows "\<exists>sel. set sel \<subseteq> set df_all \<and> mat = pivot_surface sel"
proof -
  from assms obtain period where
    "mat = pivot_surface (filter (\<lambda>r. Basis r = Some tc \<and> label r = period) df_all)"
    by (auto simp: period_surfaces_def set_map_filter Let_def split: if_splits)
  moreover have "set (filter (\<lambda>r. Basis r = Some tc \<and> label r = period) df_all) \<subseteq> set df_all"
    by auto
  ultimately show ?thesis by blast
qed

lemma set_surface_date_filter: "set (surface_date_filter dr s e df) \<subseteq> set df"
  by (auto simp: surface_date_filter_def split: option.splits)

lemma generate_vol_surfaces_out:
  assumes "generate_vol_surfaces files tc tm dr s e = Inr out"
  shows "\<exists>all_data has_nat.
           surface_load tm files = Inr all_data \<and>
           (out = [] \<or>
            out = period_surfaces tc (\<lambda>r. period_month (date r)) ''_surface''
                    (surface_date_filter dr s e (concat (map snd all_data)))
                  @ period_surfaces tc (\<lambda>r. year_label has_nat (date r)) ''_YEARLY_surface''
                      (surface_date_filter dr s e (concat (map snd all_data))))"
proof (cases "surface_load tm files")
  case (Inl err)
  with assms show ?thesis
    by (simp add: generate_vol_surfaces_def)
next
  case (Inr all_data)
  with assms show ?thesis
    by (simp add: generate_vol_surfaces_def Let_def split: if_splits) blast+
qed

lemma generate_vol_surfaces_sel:
  assumes "generate_vol_surfaces files tc tm dr s e = Inr out"
    and "(name, mat) \<in> set out"
  shows "\<exists>sel. mat = pivot_surface sel \<and> (\<forall>r \<in> set sel. Moneyness r = moneyness_of (Type r))"
proof -
  from generate_vol_surfaces_out [OF assms(1)] assms(2) obtain all_data has_nat where
    l: "surface_load tm files = Inr all_data" and
    o: "out = period_surfaces tc (\<lambda>r. period_month (date r)) ''_surface''
                    (surface_date_filter dr s e (concat (map snd all_data)))
                  @ period_surfaces tc (\<lambda>r. year_label has_nat (date r)) ''_YEARLY_surface''
                      (surface_date_filter dr s e (concat (map snd all_data)))"
    by auto
  let ?rows = "concat (map snd all_data)"
  let ?df = "surface_date_filter dr s e ?rows"
  have ok: "Moneyness r = moneyness_of (Type r)" if "r \<in> set ?rows" for r
    using that surface_load_rows [OF l] by auto
  from o assms(2) obtain label suffix where
    "(name, mat) \<in> set (period_surfaces tc label suffix ?df)"
    by auto
  from period_surfaces_sel [OF this] obtain sel where "set sel \<subseteq> set ?df"
    and m: "mat = pivot_surface sel" by blast
  with set_surface_date_filter [of dr s e ?rows] have "set sel \<subseteq> set ?rows" by blast
  with ok m show ?thesis by blast
qed

lemma generate_vol_surfaces_error:
  assumes "generate_vol_surfaces files tc tm dr s e = Inl err"
  shows "err = KeyError \<and>
     ((\<exists>f \<in> set files. \<exists>df. surface_robust_read_csv f = Some df \<and>
         (''Type'' \<notin> set (clean_columns (columns df)) \<or>
          ''Mid'' \<notin> set (clean_columns (columns df))))
      \<or> (\<exists>all_data. surface_load tm files = Inr all_data \<and>
            ''Basis'' \<notin> set (concat (map fst all_data))))"
proof (cases "surface_load tm files")
  case (Inl err')
  with assms have "err' = err" by (simp add: generate_vol_surfaces_def)
  with Inl surface_load_error [of tm files err] show ?thesis by blast
next
  case (Inr all_data)
  with assms show ?thesis
    by (simp add: generate_vol_surfaces_def Let_def split: if_splits)
qed

lemmas surface_eval = surface_robust_read_csv_def df_empty_def clean_columns_def
  surface_step_def surface_row_def moneyness_of_def type_to_moneyness_def
  generate_vol_surfaces_def surface_date_filter_def between_def period_surfaces_def
  unique_def period_month_def year_label_def pivot_surface_def mean_def safe_curve_def

lemma ex_surface_generate:
  "generate_vol_surfaces [ex_surface_file] ''NYMEX'' None None None None = Inr ex_surface_out"
  by (simp add: surface_eval str_eval date_eval ex_surface_file_def ex_surface_rows_def
        ex_surface_out_def Let_def)

lemma pivot_values:
  "List.map_filter (\<lambda>(k', v). if k' = (d, m) then v else None)
     (List.map_filter
        (\<lambda>r::srow. case (date r, Moneyness r) of
               (Some d, Some m) \<Rightarrow> Some ((d, m), Mid r)
             | _ \<Rightarrow> None) df) =
   List.map_filter Mid (filter (\<lambda>r. date r = Some d \<and> Moneyness r = Some m) df)"
  by (induction df) (auto simp: List.map_filter_simps split: option.splits)

lemma pivot_surface_cells_raw:
  "((d, m), v) \<in> set (pivot_surface df) \<longleftrightarrow>
   mean (List.map_filter Mid (filter (\<lambda>r. date r = Some d \<and> Moneyness r = Some m) df)) = Some v"
proof -
  define keyed where "keyed = List.map_filter
        (\<lambda>r::srow. case (date r, Moneyness r) of
               (Some d, Some m) \<Rightarrow> Some ((d, m), Mid r)
             | _ \<Rightarrow> None) df"
  define vals where "vals = (\<lambda>k. List.map_filter (\<lambda>(k', v). if k' = k then v else None) keyed)"
  let ?cell = "List.map_filter Mid (filter (\<lambda>r. date r = Some d \<and> Moneyness r = Some m) df)"
  have p: "pivot_surface df =
      List.map_filter (\<lambda>k. map_option (Pair k) (mean (vals k))) (sort (remdups (map fst keyed)))"
    by (simp only: pivot_surface_def Let_def keyed_def vals_def)
  have pv: "vals (d, m) = ?cell"
    unfolding vals_def keyed_def by (rule pivot_values)
  have mem: "((d, m), v) \<in> set (pivot_surface df) \<longleftrightarrow>
      (d, m) \<in> fst ` set keyed \<and> mean (vals (d, m)) = Some v"
    unfolding p set_map_filter by force
  have key: "(d, m) \<in> fst ` set keyed" if "mean ?cell = Some v"
  proof -
    from that have "?cell \<noteq> []"
      by (auto simp: mean_def split: if_splits)
    then obtain x where "x \<in> set ?cell"
      by (cases ?cell) auto
    then obtain r where r: "r \<in> set df" "date r = Some d" "Moneyness r = Some m"
      by (auto simp: set_map_filter)
    then have "((d, m), Mid r) \<in> set keyed"
      unfolding keyed_def set_map_filter by (auto intro!: bexI [of _ r])
    then show ?thesis by force
  qed
  from mem pv key show ?thesis by auto
qed

lemma pivot_surface_cells:
  assumes "\<forall>r \<in> set sel. Moneyness r = moneyness_of (Type r)"
  shows "((d, m), v) \<in> set (pivot_surface sel) \<longleftrightarrow>
         mean (List.map_filter Mid (cell_rows sel d m)) = Some v"
proof -
  have "filter (\<lambda>r. date r = Some d \<and> Moneyness r = Some m) sel = cell_rows sel d m"
    unfolding cell_rows_def using assms by (auto intro!: filter_cong)
  then show ?thesis
    by (simp add: pivot_surface_cells_raw)
qed

lemma surface_step_file_rows:
  assumes "surface_step tm f = Inr loaded"
  shows "(case loaded of None \<Rightarrow> [] | Some df \<Rightarrow> snd df) = surface_file_rows tm f"
proof (cases "endswith (filename f) ''.csv'' \<and> month_matches tm (filename f)")
  case False
  with assms show ?thesis
    by (auto simp: surface_step_def surface_file_rows_def)
next
  case True
  show ?thesis
  proof (cases "surface_robust_read_csv f")
    case None
    with True assms show ?thesis
      by (auto simp: surface_step_def surface_file_rows_def)
  next
    case (Some df)
    with True assms show ?thesis
      by (auto simp: surface_step_def surface_file_rows_def Let_def split: if_splits)
  qed
qed

lemma surface_load_file_rows:
  "surface_load tm files = Inr all_data \<Longrightarrow>
   concat (map snd all_data) = concat (map (surface_file_rows tm) files)"
proof (induction files arbitrary: all_data)
  case Nil
  then show ?case by simp
next
  case (Cons f files)
  from Cons.prems obtain loaded rest where s: "surface_step tm f = Inr loaded"
    and l: "surface_load tm files = Inr rest"
    and a: "all_data = (case loaded of None \<Rightarrow> [] | Some df \<Rightarrow> [df]) @ rest"
    by (auto split: sum.splits)
  have "concat (map snd (case loaded of None \<Rightarrow> [] | Some df \<Rightarrow> [df])) =
        (case loaded of None \<Rightarrow> [] | Some df \<Rightarrow> snd df)"
    by (cases loaded) simp_all
  with surface_step_file_rows [OF s] Cons.IH [OF l] show ?case
    by (simp add: a)
qed

lemma surface_file_rows_moneyness:
  assumes "r \<in> set (surface_file_rows tm f)"
  shows "Moneyness r = moneyness_of (Type r)"
proof (cases "surface_robust_read_csv f")
  case None
  then have "surface_file_rows tm f = []"
    by (simp add: surface_file_rows_def)
  with assms have False by simp
  then show ?thesis ..
next
  case (Some df)
  let ?cols = "clean_columns (columns df)"
  have "surface_file_rows tm f = [] \<or> surface_file_rows tm f = map (surface_row ?cols) (rows df)"
    by (simp add: surface_file_rows_def Some Let_def)
  with assms obtain raw where "r = surface_row ?cols raw"
    by auto
  then show ?thesis
    by (simp only: surface_row_moneyness)
qed

lemma pivot_surface_Nil: "pivot_surface [] = []"
  by (simp add: pivot_surface_def)

lemma set_period_surfaces:
  "(name, mat) \<in> set (period_surfaces tc label suffix df_all) \<longleftrightarrow>
   mat \<noteq> [] \<and>
   (\<exists>period \<in> label ` set df_all.
      name = safe_curve tc @ ''_'' @ period @ suffix @ ''_data.csv'' \<and>
      mat = pivot_surface (filter (\<lambda>r. Basis r = Some tc \<and> label r = period) df_all))"
proof -
  have "(df_p = [] \<or> pivot_surface df_p = []) = (pivot_surface df_p = [])" for df_p
    by (auto simp: pivot_surface_Nil)
  then show ?thesis
    unfolding period_surfaces_def set_map_filter Let_def unique_def
    by (simp only: set_rev set_remdups set_map) (auto split: if_splits)
qed

lemma generate_vol_surfaces_exact:
  assumes "generate_vol_surfaces files tc tm dr s e = Inr out"
  shows "out =
     period_surfaces tc (\<lambda>r. period_month (date r)) ''_surface''
       (surface_date_filter dr s e (concat (map (surface_file_rows tm) files)))
     @ period_surfaces tc
         (\<lambda>r. year_label (\<exists>r \<in> set (concat (map (surface_file_rows tm) files)). date r = None)
                 (date r))
         ''_YEARLY_surface''
         (surface_date_filter dr s e (concat (map (surface_file_rows tm) files)))"
proof -
  from assms obtain all_data where l: "surface_load tm files = Inr all_data"
    by (auto simp: generate_vol_surfaces_def split: sum.splits)
  note rows = surface_load_file_rows [OF l]
  have e: "period_surfaces tc label suffix [] = []" for label suffix
    by (simp add: period_surfaces_def unique_def)
  have f: "surface_date_filter dr s e [] = []"
    by (simp add: surface_date_filter_def split: option.splits)
  show ?thesis
  proof (cases "all_data = []")
    case True
    with rows have r0: "concat (map (surface_file_rows tm) files) = []"
      by simp
    from True assms l have "out = []"
      by (simp add: generate_vol_surfaces_def)
    then show ?thesis
      unfolding r0 by (simp add: e f)
  next
    case False
    let ?df = "surface_date_filter dr s e (concat (map snd all_data))"
    let ?ps = "period_surfaces tc (\<lambda>r. period_month (date r)) ''_surface'' ?df
       @ period_surfaces tc
           (\<lambda>r. year_label (\<exists>r \<in> set (concat (map snd all_data)). date r = None) (date r))
           ''_YEARLY_surface'' ?df"
    from False assms l have "(?df = [] \<and> out = []) \<or> out = ?ps"
      by (simp add: generate_vol_surfaces_def Let_def del: set_concat split: if_splits)
    then have "out = ?ps"
      by (auto simp: e simp del: set_concat)
    then show ?thesis
      by (simp only: rows)
  qed
qed

lemma cell_rows_label:
  "r \<in> set (cell_rows sel d m) \<Longrightarrow> \<exists>t. Type r = Some t \<and> map_of type_to_moneyness t = Some m"
  by (cases "Type r") (auto simp: cell_rows_def moneyness_of_def)

lemma surface_rows_mapped:
  "\<forall>r \<in> set (concat (map (surface_file_rows tm) files)). Moneyness r = moneyness_of (Type r)"
proof
  fix r
  assume "r \<in> set (concat (map (surface_file_rows tm) files))"
  then obtain f where "r \<in> set (surface_file_rows tm f)" by auto
  then show "Moneyness r = moneyness_of (Type r)" by (rule surface_file_rows_moneyness)
qed

lemma surface_cells_of_files:
  assumes "set sel \<subseteq> set (concat (map (surface_file_rows tm) files))"
  shows "((d, m), v) \<in> set (pivot_surface sel) \<longleftrightarrow>
         mean (List.map_filter Mid (cell_rows sel d m)) = Some v"
proof (rule pivot_surface_cells)
  show "\<forall>r \<in> set sel. Moneyness r = moneyness_of (Type r)"
  proof
    fix r
    assume "r \<in> set sel"
    with assms have "r \<in> set (concat (map (surface_file_rows tm) files))" by blast
    with surface_rows_mapped [of tm files] show "Moneyness r = moneyness_of (Type r)" by (rule bspec)
  qed
qed

lemma surface_suffixes:
  "p @ ''_surface'' @ ''_data.csv'' = p @ ''_surface_data.csv''"
  "p @ ''_YEARLY_surface'' @ ''_data.csv'' = p @ ''_YEARLY_surface_data.csv''"
  by simp_all

lemma generate_vol_surfaces_files:
  assumes ok: "generate_vol_surfaces files tc tm dr s e = Inr out"
  shows "(name, mat) \<in> set out \<longleftrightarrow>
         mat \<noteq> [] \<and>
         ((\<exists>period \<in> (\<lambda>r. period_month (date r)) `
                set (surface_date_filter dr s e (concat (map (surface_file_rows tm) files))).
             name = safe_curve tc @ ''_'' @ period @ ''_surface_data.csv'' \<and>
             mat = pivot_surface
                     (filter (\<lambda>r. Basis r = Some tc \<and> period_month (date r) = period)
                        (surface_date_filter dr s e (concat (map (surface_file_rows tm) files)))))
          \<or> (\<exists>period \<in> (\<lambda>r. year_label (\<exists>r \<in> set (concat (map (surface_file_rows tm) files)).
                                              date r = None) (date r)) `
                  set (surface_date_filter dr s e (concat (map (surface_file_rows tm) files))).
                name = safe_curve tc @ ''_'' @ period @ ''_YEARLY_surface_data.csv'' \<and>
                mat = pivot_surface
                        (filter (\<lambda>r. Basis r = Some tc
                                      \<and> year_label (\<exists>r \<in> set (concat (map (surface_file_rows tm) files)).
                                                       date r = None) (date r) = period)
                           (surface_date_filter dr s e
                              (concat (map (surface_file_rows tm) files))))))"
  (is "?L \<longleftrightarrow> ?N \<and> (?A \<or> ?B)")
proof -
  have "?L \<longleftrightarrow> (?N \<and> ?A) \<or> (?N \<and> ?B)"
    unfolding generate_vol_surfaces_exact [OF ok] set_append Un_iff set_period_surfaces
      surface_suffixes
    by (rule refl)
  also have "\<dots> \<longleftrightarrow> ?N \<and> (?A \<or> ?B)"
    by (rule conj_disj_distribL [symmetric])
  finally show ?thesis .
qed

text \<open>
  C7. The labels \<open>ATM\<close>, \<open>ATM - $0.50\<close> and \<open>ATM + $0.25\<close> map to 0, -0.50 and
  0.25, and a row whose label is not in the table gets no moneyness. When
  \<open>generate_vol_surfaces\<close> returns, the matrix files it wrote are exactly the
  non-empty pivots of the rows of the target curve, month by month and year by year,
  taken from the rows of the input files that pass the date filter; in such a pivot the
  cell of a date and a moneyness exists exactly when some row of that date whose label
  the table maps to that moneyness has a numeric \<open>Mid\<close>, and holds the mean of the
  \<open>Mid\<close> of those rows. A row with a label outside the table is among the rows of no
  cell. The only failure of the function is a \<open>KeyError\<close> for an absent column
  \<open>Type\<close>, \<open>Mid\<close> or \<open>Basis\<close>, never for a label.
\<close>

theorem surface_cells_from_mapped_rows:
  "moneyness_of (Some ''ATM'') = Some 0
   \<and> moneyness_of (Some ''ATM - $0.50'') = Some (- (1 / 2))
   \<and> moneyness_of (Some ''ATM + $0.25'') = Some (1 / 4)
   \<and> (\<forall>t. t \<notin> fst ` set type_to_moneyness \<longrightarrow>
          Moneyness (surface_row cols (r\<lparr>Type := Some t\<rparr>)) = None)
   \<and> pivot_surface (filter (\<lambda>r. Moneyness r \<noteq> None) df) = pivot_surface df
   \<and> (\<forall>out. generate_vol_surfaces files tc tm dr s e = Inr out \<longrightarrow>
         (let rows_all = concat (map (surface_file_rows tm) files);
              df_all = surface_date_filter dr s e rows_all;
              has_nat = (\<exists>r \<in> set rows_all. date r = None)
          in (\<forall>r \<in> set rows_all. Moneyness r = moneyness_of (Type r))
             \<and> (\<forall>name mat.
                   (name, mat) \<in> set out \<longleftrightarrow>
                   mat \<noteq> [] \<and>
                   ((\<exists>period \<in> (\<lambda>r. period_month (date r)) ` set df_all.
                       name = safe_curve tc @ ''_'' @ period @ ''_surface_data.csv'' \<and>
                       mat = pivot_surface
                               (filter (\<lambda>r. Basis r = Some tc \<and> period_month (date r) = period)
                                  df_all))
                    \<or> (\<exists>period \<in> (\<lambda>r. year_label has_nat (date r)) ` set df_all.
                          name = safe_curve tc @ ''_'' @ period @ ''_YEARLY_surface_data.csv'' \<and>
                          mat = pivot_surface
                                  (filter (\<lambda>r. Basis r = Some tc
                                                \<and> year_label has_nat (date r) = period)
                                     df_all))))
             \<and> (\<forall>sel d m v.
                   set sel \<subseteq> set rows_all \<longrightarrow>
                   (((d, m), v) \<in> set (pivot_surface sel) \<longleftrightarrow>
                    mean (List.map_filter Mid (cell_rows sel d m)) = Some v))
             \<and> (\<forall>sel d m. \<forall>r \<in> set (cell_rows sel d m).
                   \<exists>t. Type r = Some t \<and> map_of type_to_moneyness t = Some m)))
   \<and> (\<forall>err. generate_vol_surfaces files tc tm dr s e = Inl err \<longrightarrow>
         err = KeyError \<and>
         ((\<exists>f \<in> set files. \<exists>df. surface_robust_read_csv f = Some df \<and>
             (''Type'' \<notin> set (clean_columns (columns df)) \<or>
              ''Mid'' \<notin> set (clean_columns (columns df))))
          \<or> (\<exists>all_data. surface_load tm files = Inr all_data \<and>
                ''Basis'' \<notin> set (concat (map fst all_data)))))"
proof (intro conjI)
  show "moneyness_of (Some ''ATM'') = Some 0"
    by (simp add: moneyness_of_def type_to_moneyness_def)
  show "moneyness_of (Some ''ATM - $0.50'') = Some (- (1 / 2))"
    by (simp add: moneyness_of_def type_to_moneyness_def)
  show "moneyness_of (Some ''ATM + $0.25'') = Some (1 / 4)"
    by (simp add: moneyness_of_def type_to_moneyness_def)
  show "\<forall>t. t \<notin> fst ` set type_to_moneyness \<longrightarrow>
          Moneyness (surface_row cols (r\<lparr>Type := Some t\<rparr>)) = None"
    by (simp add: surface_row_def moneyness_of_def map_of_eq_None_iff)
  show "pivot_surface (filter (\<lambda>r. Moneyness r \<noteq> None) df) = pivot_surface df"
    by (rule pivot_surface_mapped)
  show "\<forall>err. generate_vol_surfaces files tc tm dr s e = Inl err \<longrightarrow>
         err = KeyError \<and>
         ((\<exists>f \<in> set files. \<exists>df. surface_robust_read_csv f = Some df \<and>
             (''Type'' \<notin> set (clean_columns (columns df)) \<or>
              ''Mid'' \<notin> set (clean_columns (columns df))))
          \<or> (\<exists>all_data. surface_load tm files = Inr all_data \<and>
                ''Basis'' \<notin> set (concat (map fst all_data))))"
    using generate_vol_surfaces_error [of files tc tm dr s e] by blast
next
  show "\<forall>out. generate_vol_surfaces files tc tm dr s e = Inr out \<longrightarrow>
         (let rows_all = concat (map (surface_file_rows tm) files);
              df_all = surface_date_filter dr s e rows_all;
              has_nat = (\<exists>r \<in> set rows_all. date r = None)
          in (\<forall>r \<in> set rows_all. Moneyness r = moneyness_of (Type r))
             \<and> (\<forall>name mat.
                   (name, mat) \<in> set out \<longleftrightarrow>
                   mat \<noteq> [] \<and>
                   ((\<exists>period \<in> (\<lambda>r. period_month (date r)) ` set df_all.
                       name = safe_curve tc @ ''_'' @ period @ ''_surface_data.csv'' \<and>
                       mat = pivot_surface
                               (filter (\<lambda>r. Basis r = Some tc \<and> period_month (date r) = period)
                                  df_all))
                    \<or> (\<exists>period \<in> (\<lambda>r. year_label has_nat (date r)) ` set df_all.
                          name = safe_curve tc @ ''_'' @ period @ ''_YEARLY_surface_data.csv'' \<and>
                          mat = pivot_surface
                                  (filter (\<lambda>r. Basis r = Some tc
                                                \<and> year_label has_nat (date r) = period)
                                     df_all))))
             \<and> (\<forall>sel d m v.
                   set sel \<subseteq> set rows_all \<longrightarrow>
                   (((d, m), v) \<in> set (pivot_surface sel) \<longleftrightarrow>
                    mean (List.map_filter Mid (cell_rows sel d m)) = Some v))
             \<and> (\<forall>sel d m. \<forall>r \<in> set (cell_rows sel d m).
                   \<exists>t. Type r = Some t \<and> map_of type_to_moneyness t = Some m))"
    unfolding Let_def
    apply (intro allI impI conjI)
    subgoal by (rule surface_rows_mapped)
    subgoal by (rule generate_vol_surfaces_files)
    subgoal by (rule surface_cells_of_files)
    subgoal by (rule ballI) (rule cell_rows_label)
    done
qed


theorem surface_cells_from_mapped_rows_witness:
  "''HIST'' \<notin> fst ` set type_to_moneyness
   \<and> Moneyness (surface_row [''Type'']
        (\<lparr>Basis = None, Type = None, Call_Put = None, Curve_Date = None, date = None,
          Mid = None, Contract_Month = None\<rparr>\<lparr>Type := Some ''HIST''\<rparr>)) = None
   \<and> generate_vol_surfaces [ex_surface_file] ''NYMEX'' None None None None = Inr ex_surface_out
   \<and> (''NYMEX_2024-01_surface_data.csv'',
        pivot_surface
          (filter (\<lambda>r. Basis r = Some ''NYMEX'' \<and> period_month (date r) = ''2024-01'')
             (surface_date_filter None None None
                (concat (map (surface_file_rows None) [ex_surface_file])))))
       \<in> set ex_surface_out
   \<and> map Type
        (cell_rows
           (filter (\<lambda>r. Basis r = Some ''NYMEX'' \<and> period_month (date r) = ''2024-01'')
              (surface_date_filter None None None
                 (concat (map (surface_file_rows None) [ex_surface_file]))))
           (2024, 1, 15) 0) = [Some ''ATM'', Some ''ATM'']
   \<and> map Mid
        (cell_rows
           (filter (\<lambda>r. Basis r = Some ''NYMEX'' \<and> period_month (date r) = ''2024-01'')
              (surface_date_filter None None None
                 (concat (map (surface_file_rows None) [ex_surface_file]))))
           (2024, 1, 15) 0) = [Some (1 / 5), Some (6 / 25)]
   \<and> (((2024, 1, 15), 0), 11 / 50)
       \<in> set (pivot_surface
                (filter (\<lambda>r. Basis r = Some ''NYMEX'' \<and> period_month (date r) = ''2024-01'')
                   (surface_date_filter None None None
                      (concat (map (surface_file_rows None) [ex_surface_file])))))
   \<and> (((2024, 1, 15), 0), 67 / 150)
       \<notin> set (pivot_surface
                (filter (\<lambda>r. Basis r = Some ''NYMEX'' \<and> period_month (date r) = ''2024-01'')
                   (surface_date_filter None None None
                      (concat (map (surface_file_rows None) [ex_surface_file])))))"
proof -
  define rows_all where "rows_all = concat (map (surface_file_rows None) [ex_surface_file])"
  define df_all where "df_all = surface_date_filter None None None rows_all"
  define sel where
    "sel = filter (\<lambda>r. Basis r = Some ''NYMEX'' \<and> period_month (date r) = ''2024-01'') df_all"
  note t = surface_cells_from_mapped_rows
    [of "[''Type'']"
        "\<lparr>Basis = None, Type = None, Call_Put = None, Curve_Date = None, date = None,
          Mid = None, Contract_Month = None\<rparr>"
        "[]" "[ex_surface_file]" "''NYMEX''" None None None None]
  note t4 = t [THEN conjunct2, THEN conjunct2, THEN conjunct2, THEN conjunct1]
  note t6 = t [THEN conjunct2, THEN conjunct2, THEN conjunct2, THEN conjunct2, THEN conjunct2,
               THEN conjunct1, THEN spec, THEN mp, OF ex_surface_generate, unfolded Let_def]
  note outs = t6 [THEN conjunct2, THEN conjunct1, THEN spec, THEN spec]
  note cells = t6 [THEN conjunct2, THEN conjunct2, THEN conjunct1, THEN spec, THEN spec,
                   THEN spec, THEN spec, THEN mp]
  have h: "''HIST'' \<notin> fst ` set type_to_moneyness"
    by (simp add: type_to_moneyness_def)
  from t4 [THEN spec, THEN mp, OF h] have 1: "Moneyness (surface_row [''Type'']
        (\<lparr>Basis = None, Type = None, Call_Put = None, Curve_Date = None, date = None,
          Mid = None, Contract_Month = None\<rparr>\<lparr>Type := Some ''HIST''\<rparr>)) = None" .
  have rows: "rows_all = map (surface_row [''Basis'', ''Type'', ''Curve_Date'', ''Mid'', ''date''])
                           ex_surface_rows"
    by (simp add: rows_all_def surface_file_rows_def surface_eval str_eval
          ex_surface_file_def)
  have df: "df_all = rows_all"
    by (simp add: df_all_def surface_date_filter_def)
  have selv: "cell_rows sel (2024, 1, 15) 0
                = map (surface_row [''Basis'', ''Type'', ''Curve_Date'', ''Mid'', ''date''])
                    (take 2 ex_surface_rows)"
    by (simp add: sel_def df rows cell_rows_def ex_surface_rows_def surface_eval str_eval
          date_eval)
  have ty: "map Type (cell_rows sel (2024, 1, 15) 0) = [Some ''ATM'', Some ''ATM'']"
    unfolding selv by (simp add: ex_surface_rows_def surface_row_def)
  have mid: "map Mid (cell_rows sel (2024, 1, 15) 0) = [Some (1 / 5), Some (6 / 25)]"
    unfolding selv by (simp add: ex_surface_rows_def surface_row_def)
  have mean1: "mean (List.map_filter Mid (cell_rows sel (2024, 1, 15) 0)) = Some (11 / 50)"
    unfolding selv
    by (simp add: ex_surface_rows_def surface_row_def List.map_filter_def mean_def
          del: not_None_eq)
  have sub: "set sel \<subseteq> set (concat (map (surface_file_rows None) [ex_surface_file]))"
    unfolding sel_def df rows_all_def by (rule filter_is_subset)
  have c1: "(((2024, 1, 15), 0), 11 / 50) \<in> set (pivot_surface sel)"
    unfolding cells [OF sub] by (rule mean1)
  have c2: "(((2024, 1, 15), 0), 67 / 150) \<notin> set (pivot_surface sel)"
    unfolding cells [OF sub] mean1 by simp
  from c1 have ne: "pivot_surface sel \<noteq> []" by auto
  have per: "''2024-01'' \<in> (\<lambda>r. period_month (date r)) ` set df_all"
    by (simp add: df rows ex_surface_rows_def surface_eval str_eval date_eval)
  have nm: "''NYMEX_2024-01_surface_data.csv''
              = safe_curve ''NYMEX'' @ ''_'' @ ''2024-01'' @ ''_surface_data.csv''"
    by (simp add: safe_curve_def)
  have mem: "(''NYMEX_2024-01_surface_data.csv'', pivot_surface sel) \<in> set ex_surface_out"
    unfolding outs
  proof (intro conjI disjI1 bexI)
    show "pivot_surface sel \<noteq> []" by (rule ne)
    show "''2024-01'' \<in> (\<lambda>r. period_month (date r)) `
            set (surface_date_filter None None None
                   (concat (map (surface_file_rows None) [ex_surface_file])))"
      using per unfolding df_all_def rows_all_def .
    show "''NYMEX_2024-01_surface_data.csv''
              = safe_curve ''NYMEX'' @ ''_'' @ ''2024-01'' @ ''_surface_data.csv''"
      by (rule nm)
    show "pivot_surface sel = pivot_surface
           (filter (\<lambda>r. Basis r = Some ''NYMEX'' \<and> period_month (date r) = ''2024-01'')
              (surface_date_filter None None None
                 (concat (map (surface_file_rows None) [ex_surface_file]))))"
      unfolding sel_def df_all_def rows_all_def by (rule refl)
  qed
  from h 1 ex_surface_generate mem ty mid c1 c2 show ?thesis
    unfolding sel_def df_all_def rows_all_def
    by (intro conjI)
qed

subsection \<open>Rolling mean and daily change\<close>

lemma rolling_from_trailing:
  "rolling_from w mp (drop (length pre - w) pre) xs =
     map (\<lambda>i. window_mean mp (drop (Suc (length pre + i) - w) (pre @ take (Suc i) xs)))
       [0 ..< length xs]"
proof (induction xs arbitrary: pre)
  case Nil
  show ?case by simp
next
  case (Cons x xs)
  have win: "drop (Suc (length (drop (length pre - w) pre)) - w) (drop (length pre - w) pre @ [x]) =
             drop (length (pre @ [x]) - w) (pre @ [x])"
    by (cases "length pre \<le> w") (simp_all add: Suc_diff_le)
  have lhs: "rolling_from w mp (drop (length pre - w) pre) (x # xs) =
        window_mean mp (drop (length (pre @ [x]) - w) (pre @ [x])) #
        rolling_from w mp (drop (length (pre @ [x]) - w) (pre @ [x])) xs"
    by (simp only: rolling_from.simps Let_def win)
  have ih: "rolling_from w mp (drop (length (pre @ [x]) - w) (pre @ [x])) xs =
        map (\<lambda>i. window_mean mp (drop (Suc (length (pre @ [x]) + i) - w)
                                    ((pre @ [x]) @ take (Suc i) xs))) [0 ..< length xs]"
    by (rule Cons.IH)
  have rhs: "map (\<lambda>i. window_mean mp (drop (Suc (length pre + i) - w)
                        (pre @ take (Suc i) (x # xs)))) [0 ..< length (x # xs)] =
        window_mean mp (drop (Suc (length pre + 0) - w) (pre @ take (Suc 0) (x # xs))) #
        map (\<lambda>i. window_mean mp (drop (Suc (length pre + Suc i) - w)
                        (pre @ take (Suc (Suc i)) (x # xs)))) [0 ..< length xs]"
    by (simp only: length_Cons map_upt_Suc)
  have hd: "drop (Suc (length pre + 0) - w) (pre @ take (Suc 0) (x # xs)) =
            drop (length (pre @ [x]) - w) (pre @ [x])"
    by simp
  have tl: "drop (Suc (length pre + Suc i) - w) (pre @ take (Suc (Suc i)) (x # xs)) =
            drop (Suc (length (pre @ [x]) + i) - w) ((pre @ [x]) @ take (Suc i) xs)" for i
    by simp
  show ?case
    by (simp only: lhs ih rhs hd tl)
qed

lemma rolling_mean_trailing: "rolling_mean w mp col = trailing_mean w mp col"
  using rolling_from_trailing [of w mp "[]" col]
  by (simp add: rolling_mean_def trailing_mean_def)

lemma length_rolling_mean: "length (rolling_mean w mp col) = length col"
  by (simp add: rolling_mean_trailing trailing_mean_def)

lemma length_diff_from: "length (diff_from p col) = length col"
  by (induction col arbitrary: p) simp_all

lemma length_diff: "length (diff col) = length col"
  by (simp add: diff_def length_diff_from)

lemma diff_from_nth:
  "i < length col \<Longrightarrow>
   diff_from p col ! i = cell_sub (col ! i) (if i = 0 then p else col ! (i - 1))"
proof (induction col arbitrary: p i)
  case Nil
  then show ?case by simp
next
  case (Cons x xs)
  show ?case
  proof (cases i)
    case 0
    then show ?thesis by simp
  next
    case (Suc j)
    with Cons.prems have "j < length xs" by simp
    from Cons.IH [OF this, of x] Suc show ?thesis
      by (cases j) simp_all
  qed
qed

lemma diff_first_defined:
  assumes "i < length col" and "col ! i \<noteq> None" and "\<forall>k < i. col ! k = None"
  shows "diff col ! i = None"
proof (cases i)
  case 0
  with assms(1) show ?thesis
    by (simp add: diff_def diff_from_nth cell_sub_def split: option.splits)
next
  case (Suc j)
  with assms(3) have "col ! j = None" by simp
  with assms(1) Suc show ?thesis
    by (simp add: diff_def diff_from_nth cell_sub_def split: option.splits)
qed

lemma build_artifacts:
  assumes "build_vol_time_series files cn m w s e = Inr (Some art)"
  shows "Rolling art =
           map_columns (rolling_mean w (min w (min (length (mx_index (Original_TS art))) 10)))
             (Original_TS art)
         \<and> Daily_Change art = map_columns diff (Rolling art)
         \<and> (Original_TS art = pivot_contract_month
               (sort_values_date (concat (map snd (ts_all_data m s e files))))
            \<or> Original_TS art = pivot_ewma
               (sort_values_date (concat (map snd (ts_all_data m s e files)))))"
proof -
  let ?rows = "sort_values_date (concat (map snd (ts_all_data m s e files)))"
  from assms have ne: "ts_all_data m s e files \<noteq> []"
    by (auto simp: build_vol_time_series_def Let_def)
  from assms ne obtain first rest where r: "?rows = first # rest"
    by (cases ?rows) (auto simp: build_vol_time_series_def Let_def)
  from assms ne r show ?thesis
    by (simp add: build_vol_time_series_def Let_def split: if_splits) auto
qed

lemma map_columns_index: "mx_index (map_columns f m) = mx_index m"
  by (simp add: map_columns_def)

lemma map_columns_labels: "map fst (mx_columns (map_columns f m)) = map fst (mx_columns m)"
  by (simp add: map_columns_def case_prod_unfold comp_def)

lemma map_columns_nth:
  "j < length (mx_columns m) \<Longrightarrow>
   snd (mx_columns (map_columns f m) ! j) = f (snd (mx_columns m ! j))"
  by (simp add: map_columns_def case_prod_unfold)

lemma length_map_columns: "length (mx_columns (map_columns f m)) = length (mx_columns m)"
  by (simp add: map_columns_def)

lemma rectangular_map_columns:
  "rectangular m \<Longrightarrow> (\<And>vs. length (f vs) = length vs) \<Longrightarrow> rectangular (map_columns f m)"
  by (auto simp: rectangular_def map_columns_def list_all_iff)

lemma rectangular_pivot_contract_month: "rectangular (pivot_contract_month df)"
  by (simp add: rectangular_def pivot_contract_month_def Let_def list_all_iff)

lemma rectangular_pivot_ewma: "rectangular (pivot_ewma df)"
  by (simp add: rectangular_def pivot_ewma_def Let_def)

lemmas ts_eval = ts_row_def ts_step_def ts_all_data_def sort_values_date_def
  pivot_contract_month_def pivot_ewma_def window_mean_def rolling_mean_def cell_sub_def
  diff_def map_columns_def build_vol_time_series_def clean_columns_def df_empty_def
  between_def mean_def

lemma ex_ts_build:
  "build_vol_time_series [ex_ts_file] ''GAS'' None 2 None None =
     Inr (Some (ex_ts_artifacts ''HSC_GAS_combined''))"
  by (simp add: ts_eval str_eval date_eval ex_ts_file_def ex_ts_artifacts_def ex_ts_index_def
        Let_def del: not_None_eq)

lemma ex_ts_build_month:
  "build_vol_time_series [ex_ts_file] ''GAS'' (Some ''01'') 2 None None =
     Inr (Some (ex_ts_artifacts ''HSC_01''))"
  by (simp add: ts_eval str_eval date_eval ex_ts_file_def ex_ts_artifacts_def ex_ts_index_def
        Let_def del: not_None_eq)

text \<open>
  C6. In every run that writes artifacts, the Rolling matrix has the index of the
  Original matrix and, column by column, the trailing mean over \<open>rolling_window\<close>
  rows, with the minimum-periods threshold min(\<open>rolling_window\<close>, number of rows of
  the Original matrix, 10); for a positive window and a non-empty matrix the threshold
  is positive.
\<close>

theorem rolling_is_trailing_mean:
  assumes "build_vol_time_series files cn m w s e = Inr (Some art)"
  shows "mx_index (Rolling art) = mx_index (Original_TS art)
     \<and> mx_columns (Rolling art) =
         map (\<lambda>(c, vs).
                (c, trailing_mean w (min w (min (length (mx_index (Original_TS art))) 10)) vs))
           (mx_columns (Original_TS art))
     \<and> (0 < w \<and> mx_index (Original_TS art) \<noteq> [] \<longrightarrow>
           0 < min w (min (length (mx_index (Original_TS art))) 10))"
proof -
  from build_artifacts [OF assms] have
    "Rolling art =
       map_columns (rolling_mean w (min w (min (length (mx_index (Original_TS art))) 10)))
         (Original_TS art)"
    by blast
  then show ?thesis
    by (simp add: map_columns_def rolling_mean_trailing)
qed

theorem rolling_is_trailing_mean_witness:
  "build_vol_time_series [ex_ts_file] ''GAS'' None 2 None None =
     Inr (Some (ex_ts_artifacts ''HSC_GAS_combined''))
   \<and> min 2 (min (length (mx_index (Original_TS (ex_ts_artifacts ''HSC_GAS_combined'')))) 10)
       = (2 :: nat)
   \<and> mx_columns (Rolling (ex_ts_artifacts ''HSC_GAS_combined'')) =
       [(''EWMA_Volatility'', trailing_mean 2 2 [Some (3 / 10), Some (3 / 10), Some (1 / 2)])]
   \<and> trailing_mean 2 2 [Some (3 / 10), Some (3 / 10), Some (1 / 2)] =
       [None, Some (3 / 10), Some (2 / 5)]"
proof -
  let ?a = "ex_ts_artifacts ''HSC_GAS_combined''"
  from rolling_is_trailing_mean [OF ex_ts_build]
  have a: "mx_columns (Rolling ?a) =
         map (\<lambda>(c, vs).
                (c, trailing_mean 2 (min 2 (min (length (mx_index (Original_TS ?a))) 10)) vs))
           (mx_columns (Original_TS ?a))"
    by blast
  have b: "min 2 (min (length (mx_index (Original_TS ?a))) 10) = (2 :: nat)"
    by (simp add: ex_ts_artifacts_def ex_ts_index_def)
  have c: "mx_columns (Original_TS ?a) =
      [(''EWMA_Volatility'', [Some (3 / 10), Some (3 / 10), Some (1 / 2)])]"
    by (simp add: ex_ts_artifacts_def)
  from a have 1: "mx_columns (Rolling ?a) =
       [(''EWMA_Volatility'', trailing_mean 2 2 [Some (3 / 10), Some (3 / 10), Some (1 / 2)])]"
    unfolding b c by (simp only: list.map case_prod_conv)
  have "mx_columns (Rolling ?a) = [(''EWMA_Volatility'', [None, Some (3 / 10), Some (2 / 5)])]"
    by (simp add: ex_ts_artifacts_def)
  with 1 have 2: "trailing_mean 2 2 [Some (3 / 10), Some (3 / 10), Some (1 / 2)] =
       [None, Some (3 / 10), Some (2 / 5)]"
    by (simp only: list.inject prod.inject)
  from ex_ts_build b 1 2 show ?thesis
    by (intro conjI)
qed

text \<open>
  C8. In every run that writes artifacts, the Rolling and the Daily-Change matrix have
  the date index and the column labels of the Original matrix, all three have one cell
  per date in every column, and in each column the Daily-Change cell of the first row
  with a Rolling value is undefined.
\<close>

theorem rolling_and_daily_change_aligned:
  assumes "build_vol_time_series files cn m w s e = Inr (Some art)"
  shows "mx_index (Rolling art) = mx_index (Original_TS art)
     \<and> mx_index (Daily_Change art) = mx_index (Original_TS art)
     \<and> map fst (mx_columns (Rolling art)) = map fst (mx_columns (Original_TS art))
     \<and> map fst (mx_columns (Daily_Change art)) = map fst (mx_columns (Original_TS art))
     \<and> rectangular (Original_TS art) \<and> rectangular (Rolling art)
     \<and> rectangular (Daily_Change art)
     \<and> (\<forall>j < length (mx_columns (Rolling art)).
          \<forall>i < length (snd (mx_columns (Rolling art) ! j)).
            snd (mx_columns (Rolling art) ! j) ! i \<noteq> None
            \<and> (\<forall>k < i. snd (mx_columns (Rolling art) ! j) ! k = None)
            \<longrightarrow> snd (mx_columns (Daily_Change art) ! j) ! i = None)"
proof -
  let ?mp = "min w (min (length (mx_index (Original_TS art))) 10)"
  from build_artifacts [OF assms] have
    r: "Rolling art = map_columns (rolling_mean w ?mp) (Original_TS art)" and
    d: "Daily_Change art = map_columns diff (Rolling art)" and
    o: "Original_TS art = pivot_contract_month
               (sort_values_date (concat (map snd (ts_all_data m s e files))))
            \<or> Original_TS art = pivot_ewma
               (sort_values_date (concat (map snd (ts_all_data m s e files))))"
    by blast+
  from o have ro: "rectangular (Original_TS art)"
    by (auto simp: rectangular_pivot_contract_month rectangular_pivot_ewma)
  then have rr: "rectangular (Rolling art)"
    unfolding r by (rule rectangular_map_columns) (rule length_rolling_mean)
  then have rd: "rectangular (Daily_Change art)"
    unfolding d by (rule rectangular_map_columns) (rule length_diff)
  have first: "snd (mx_columns (Daily_Change art) ! j) ! i = None"
    if "j < length (mx_columns (Rolling art))"
      and "i < length (snd (mx_columns (Rolling art) ! j))"
      and "snd (mx_columns (Rolling art) ! j) ! i \<noteq> None"
      and "\<forall>k < i. snd (mx_columns (Rolling art) ! j) ! k = None" for i j
  proof -
    from that(1) have "snd (mx_columns (Daily_Change art) ! j) =
        diff (snd (mx_columns (Rolling art) ! j))"
      unfolding d by (rule map_columns_nth)
    with diff_first_defined [OF that(2) that(3) that(4)] show ?thesis by simp
  qed
  from r d have "mx_index (Rolling art) = mx_index (Original_TS art)"
    and "mx_index (Daily_Change art) = mx_index (Original_TS art)"
    and "map fst (mx_columns (Rolling art)) = map fst (mx_columns (Original_TS art))"
    and "map fst (mx_columns (Daily_Change art)) = map fst (mx_columns (Original_TS art))"
    by (simp_all add: map_columns_index map_columns_labels)
  with ro rr rd first show ?thesis
    by blast
qed

theorem rolling_and_daily_change_aligned_witness:
  "build_vol_time_series [ex_ts_file] ''GAS'' None 2 None None =
     Inr (Some (ex_ts_artifacts ''HSC_GAS_combined''))
   \<and> mx_index (Daily_Change (ex_ts_artifacts ''HSC_GAS_combined'')) = ex_ts_index
   \<and> snd (mx_columns (Rolling (ex_ts_artifacts ''HSC_GAS_combined'')) ! 0) =
       [None, Some (3 / 10), Some (2 / 5)]
   \<and> snd (mx_columns (Daily_Change (ex_ts_artifacts ''HSC_GAS_combined'')) ! 0) ! 1 = None"
proof -
  let ?a = "ex_ts_artifacts ''HSC_GAS_combined''"
  note t = rolling_and_daily_change_aligned [OF ex_ts_build]
  have rv: "snd (mx_columns (Rolling ?a) ! 0) = [None, Some (3 / 10), Some (2 / 5)]"
    by (simp add: ex_ts_artifacts_def)
  have j: "0 < length (mx_columns (Rolling ?a))"
    by (simp add: ex_ts_artifacts_def)
  have i: "1 < length (snd (mx_columns (Rolling ?a) ! 0))"
    by (simp add: rv)
  have h: "snd (mx_columns (Rolling ?a) ! 0) ! 1 \<noteq> None
      \<and> (\<forall>k < 1. snd (mx_columns (Rolling ?a) ! 0) ! k = None)"
    by (simp add: rv)
  from t j i h have 1: "snd (mx_columns (Daily_Change ?a) ! 0) ! 1 = None"
    by blast
  from t have 2: "mx_index (Daily_Change ?a) = ex_ts_index"
    by (simp add: ex_ts_artifacts_def)
  from ex_ts_build rv 1 2 show ?thesis
    by simp
qed

subsection \<open>The month filter\<close>

lemma contains_Nil: "contains s []"
  by (cases s) (simp_all add: startswith_def)

lemma month_matches_contains: "month_matches (Some m) file = contains file m"
  by (cases "m = []") (simp_all add: contains_Nil)

lemma startswith_iff: "startswith s sub \<longleftrightarrow> (\<exists>post. s = sub @ post)"
proof
  assume "startswith s sub"
  then have "s = sub @ drop (length sub) s"
    unfolding startswith_def by (metis append_take_drop_id)
  then show "\<exists>post. s = sub @ post" ..
next
  assume "\<exists>post. s = sub @ post"
  then show "startswith s sub" unfolding startswith_def by auto
qed

lemma contains_iff: "contains s sub \<longleftrightarrow> (\<exists>pre post. s = pre @ sub @ post)"
proof (induction s)
  case Nil
  show ?case by simp
next
  case (Cons c cs)
  show ?case
  proof
    assume "contains (c # cs) sub"
    then consider "startswith (c # cs) sub" | "contains cs sub" by auto
    then show "\<exists>pre post. c # cs = pre @ sub @ post"
    proof cases
      case 1
      then obtain post where "c # cs = sub @ post" unfolding startswith_iff ..
      then have "c # cs = [] @ sub @ post" by simp
      then show ?thesis by blast
    next
      case 2
      with Cons.IH obtain pre post where "cs = pre @ sub @ post" by blast
      then have "c # cs = (c # pre) @ sub @ post" by simp
      then show ?thesis by blast
    qed
  next
    assume "\<exists>pre post. c # cs = pre @ sub @ post"
    then obtain pre post where e: "c # cs = pre @ sub @ post" by blast
    show "contains (c # cs) sub"
    proof (cases pre)
      case Nil
      with e have "startswith (c # cs) sub" unfolding startswith_iff by auto
      then show ?thesis by simp
    next
      case (Cons a pre')
      with e have "cs = pre' @ sub @ post" by simp
      with Cons.IH have "contains cs sub" by blast
      then show ?thesis by simp
    qed
  qed
qed

lemma surface_step_month:
  "surface_step (Some m) f =
     (if contains (filename f) m then surface_step None f else Inr None)"
  unfolding surface_step_def month_matches_contains by simp

lemma surface_step_None_skip:
  "surface_step tm f = Inr None \<Longrightarrow>
   (case surface_load tm fs of Inl e \<Rightarrow> Inl e | Inr all_data \<Rightarrow> Inr ([] @ all_data))
     = surface_load tm fs"
  by (simp split: sum.splits)

lemma surface_load_month:
  "surface_load (Some m) files = surface_load None (filter (\<lambda>f. contains (filename f) m) files)"
proof (induction files)
  case Nil
  show ?case by simp
next
  case (Cons f fs)
  show ?case
  proof (cases "contains (filename f) m")
    case True
    then have h: "surface_step (Some m) f = surface_step None f"
      by (simp only: surface_step_month if_True)
    show ?thesis
      unfolding surface_load.simps h Cons.IH using True by simp
  next
    case False
    then have h: "surface_step (Some m) f = Inr None"
      by (simp only: surface_step_month if_False)
    show ?thesis
      unfolding surface_load.simps h Cons.IH using False by (simp split: sum.splits)
  qed
qed

lemma ts_step_month:
  "ts_step (Some m) s e f = (if contains (filename f) m then ts_step None s e f else None)"
  unfolding ts_step_def month_matches_contains by simp

lemma ts_all_data_month:
  "ts_all_data (Some m) s e files =
     ts_all_data None s e (filter (\<lambda>f. contains (filename f) m) files)"
proof (induction files)
  case Nil
  show ?case by (simp add: ts_all_data_def)
next
  case (Cons f fs)
  then have IH: "List.map_filter (ts_step (Some m) s e) fs =
    List.map_filter (ts_step None s e) (filter (\<lambda>f. contains (filename f) m) fs)"
    by (simp only: ts_all_data_def)
  show ?case
    unfolding ts_all_data_def
    by (cases "contains (filename f) m") (simp_all add: List.map_filter_simps ts_step_month IH cong: option.case_cong)
qed

lemma generate_vol_surfaces_month:
  "generate_vol_surfaces files tc (Some m) dr s e =
     generate_vol_surfaces (filter (\<lambda>f. contains (filename f) m) files) tc None dr s e"
  by (simp only: generate_vol_surfaces_def surface_load_month)

lemma build_vol_time_series_month:
  "map_sum id (map_option sheets) (build_vol_time_series files cn (Some m) w s e) =
   map_sum id (map_option sheets)
     (build_vol_time_series (filter (\<lambda>f. contains (filename f) m) files) cn None w s e)"
proof -
  define ad where "ad = ts_all_data None s e (filter (\<lambda>f. contains (filename f) m) files)"
  show ?thesis
    unfolding build_vol_time_series_def ts_all_data_month ad_def [symmetric]
    by (cases "sort_values_date (concat (map snd ad))")
       (simp_all add: Let_def sheets_def)
qed

lemma surface_step_all_rows:
  "surface_step tm f = Inr (Some (cols, rs)) \<Longrightarrow>
   \<exists>df. surface_robust_read_csv f = Some df \<and> cols = clean_columns (columns df)
        \<and> rs = map (surface_row cols) (rows df)"
  by (auto simp: surface_step_def Let_def split: if_splits option.splits)

lemma ts_step_all_rows:
  "ts_step tm s e f = Some (cols, rs) \<Longrightarrow>
   \<exists>df. read_csv f utf_8 bad_skip = Some df \<and>
        rs = filter (\<lambda>r. Mid r \<noteq> None)
               (case (s, e) of
                  (Some s', Some e') \<Rightarrow>
                    filter (\<lambda>r. between s' e' (date r))
                      (map (ts_row (clean_columns (columns df))) (rows df))
                | _ \<Rightarrow> map (ts_row (clean_columns (columns df))) (rows df))"
  by (auto simp: ts_step_def Let_def split: if_splits option.splits)

text \<open>
  C10. With a month filter, \<open>generate_vol_surfaces\<close> and \<open>build_vol_time_series\<close>
  take a file exactly when the month string occurs in its file name, and then treat it
  as they do without a month filter: the surface builder loads every row of the file,
  the time-series builder every row with a numeric \<open>Mid\<close> inside the date range, in
  both cases whatever the month of the row's date. So the matrices of a call with the
  month filter are those of a call without it on the files whose names hold the month
  string.
\<close>

theorem month_filter_is_filename_substring:
  "(contains (filename f) m \<longleftrightarrow> (\<exists>pre post. filename f = pre @ m @ post))
   \<and> surface_step (Some m) f =
        (if contains (filename f) m then surface_step None f else Inr None)
   \<and> ts_step (Some m) s e f =
        (if contains (filename f) m then ts_step None s e f else None)
   \<and> surface_load (Some m) files =
        surface_load None (filter (\<lambda>f. contains (filename f) m) files)
   \<and> ts_all_data (Some m) s e files =
        ts_all_data None s e (filter (\<lambda>f. contains (filename f) m) files)
   \<and> generate_vol_surfaces files tc (Some m) dr s e =
        generate_vol_surfaces (filter (\<lambda>f. contains (filename f) m) files) tc None dr s e
   \<and> map_sum id (map_option sheets) (build_vol_time_series files cn (Some m) w s e) =
        map_sum id (map_option sheets)
          (build_vol_time_series (filter (\<lambda>f. contains (filename f) m) files) cn None w s e)
   \<and> (\<forall>cols rs. surface_step (Some m) f = Inr (Some (cols, rs)) \<longrightarrow>
          contains (filename f) m \<and>
          (\<exists>df. surface_robust_read_csv f = Some df \<and> cols = clean_columns (columns df)
                \<and> rs = map (surface_row cols) (rows df)))
   \<and> (\<forall>cols rs. ts_step (Some m) s e f = Some (cols, rs) \<longrightarrow>
          contains (filename f) m \<and>
          (\<exists>df. read_csv f utf_8 bad_skip = Some df \<and>
                rs = filter (\<lambda>r. Mid r \<noteq> None)
                       (case (s, e) of
                          (Some s', Some e') \<Rightarrow>
                            filter (\<lambda>r. between s' e' (date r))
                              (map (ts_row (clean_columns (columns df))) (rows df))
                        | _ \<Rightarrow> map (ts_row (clean_columns (columns df))) (rows df))))"
proof (intro conjI allI impI)
  show "contains (filename f) m \<longleftrightarrow> (\<exists>pre post. filename f = pre @ m @ post)"
    by (rule contains_iff)
  show "surface_step (Some m) f =
        (if contains (filename f) m then surface_step None f else Inr None)"
    by (rule surface_step_month)
  show "ts_step (Some m) s e f =
        (if contains (filename f) m then ts_step None s e f else None)"
    by (rule ts_step_month)
  show "surface_load (Some m) files =
        surface_load None (filter (\<lambda>f. contains (filename f) m) files)"
    by (rule surface_load_month)
  show "ts_all_data (Some m) s e files =
        ts_all_data None s e (filter (\<lambda>f. contains (filename f) m) files)"
    by (rule ts_all_data_month)
  show "generate_vol_surfaces files tc (Some m) dr s e =
        generate_vol_surfaces (filter (\<lambda>f. contains (filename f) m) files) tc None dr s e"
    by (rule generate_vol_surfaces_month)
  show "map_sum id (map_option sheets) (build_vol_time_series files cn (Some m) w s e) =
        map_sum id (map_option sheets)
          (build_vol_time_series (filter (\<lambda>f. contains (filename f) m) files) cn None w s e)"
    by (rule build_vol_time_series_month)
next
  fix cols rs
  assume a: "surface_step (Some m) f = Inr (Some (cols, rs))"
  then show "contains (filename f) m"
    unfolding surface_step_month by (simp split: if_splits)
  from a show "\<exists>df. surface_robust_read_csv f = Some df \<and> cols = clean_columns (columns df)
                \<and> rs = map (surface_row cols) (rows df)"
    by (rule surface_step_all_rows)
next
  fix cols rs
  assume a: "ts_step (Some m) s e f = Some (cols, rs)"
  then show "contains (filename f) m"
    unfolding ts_step_month by (simp split: if_splits)
  from a show "\<exists>df. read_csv f utf_8 bad_skip = Some df \<and>
                rs = filter (\<lambda>r. Mid r \<noteq> None)
                       (case (s, e) of
                          (Some s', Some e') \<Rightarrow>
                            filter (\<lambda>r. between s' e' (date r))
                              (map (ts_row (clean_columns (columns df))) (rows df))
                        | _ \<Rightarrow> map (ts_row (clean_columns (columns df))) (rows df))"
    by (rule ts_step_all_rows)
qed

theorem month_filter_is_filename_substring_witness:
  "contains (filename ex_surface_file) ''01''
   \<and> generate_vol_surfaces [ex_surface_file] ''NYMEX'' (Some ''01'') None None None
       = Inr ex_surface_out
   \<and> (''NYMEX_2024-02_surface_data.csv'', [(((2024, 2, 1), 1 / 4), 1 / 4)]) \<in> set ex_surface_out
   \<and> \<not> contains (filename ex_surface_file) ''03''
   \<and> generate_vol_surfaces [ex_surface_file] ''NYMEX'' (Some ''03'') None None None = Inr []
   \<and> contains (filename ex_ts_file) ''01''
   \<and> map_sum id (map_option sheets)
        (build_vol_time_series [ex_ts_file] ''GAS'' (Some ''01'') 2 None None)
       = Inr (Some (sheets (ex_ts_artifacts ''HSC_GAS_combined'')))
   \<and> (2024, 2, 1) \<in> set (mx_index (Original_TS (ex_ts_artifacts ''HSC_GAS_combined'')))"
proof -
  note t1 = month_filter_is_filename_substring
    [of ex_surface_file "''01''" None None "[ex_surface_file]" "''NYMEX''" None "''GAS''" 2]
  note t2 = month_filter_is_filename_substring
    [of ex_surface_file "''03''" None None "[ex_surface_file]" "''NYMEX''" None "''GAS''" 2]
  note t3 = month_filter_is_filename_substring
    [of ex_ts_file "''01''" None None "[ex_ts_file]" "''NYMEX''" None "''GAS''" 2]
  note g1 = t1 [THEN conjunct2, THEN conjunct2, THEN conjunct2, THEN conjunct2, THEN conjunct2,
                THEN conjunct1]
  note g2 = t2 [THEN conjunct2, THEN conjunct2, THEN conjunct2, THEN conjunct2, THEN conjunct2,
                THEN conjunct1]
  note b3 = t3 [THEN conjunct2, THEN conjunct2, THEN conjunct2, THEN conjunct2, THEN conjunct2,
                THEN conjunct2, THEN conjunct1]
  have c1: "contains (filename ex_surface_file) ''01''"
    by (simp add: ex_surface_file_def str_eval)
  have c2: "\<not> contains (filename ex_surface_file) ''03''"
    by (simp add: ex_surface_file_def str_eval)
  have c3: "contains (filename ex_ts_file) ''01''"
    by (simp add: ex_ts_file_def str_eval)
  have 1: "generate_vol_surfaces [ex_surface_file] ''NYMEX'' (Some ''01'') None None None
       = Inr ex_surface_out"
    unfolding g1 using c1 by (simp add: ex_surface_generate)
  have 2: "generate_vol_surfaces [ex_surface_file] ''NYMEX'' (Some ''03'') None None None = Inr []"
    unfolding g2 using c2 by (simp add: generate_vol_surfaces_def)
  have 3: "map_sum id (map_option sheets)
        (build_vol_time_series [ex_ts_file] ''GAS'' (Some ''01'') 2 None None)
       = Inr (Some (sheets (ex_ts_artifacts ''HSC_GAS_combined'')))"
    unfolding b3 using c3 by (simp add: ex_ts_build)
  have mem: "(''NYMEX_2024-02_surface_data.csv'', [(((2024, 2, 1), 1 / 4), 1 / 4)])
               \<in> set ex_surface_out"
    by (simp add: ex_surface_out_def)
  have idx: "(2024, 2, 1) \<in> set (mx_index (Original_TS (ex_ts_artifacts ''HSC_GAS_combined'')))"
    by (simp add: ex_ts_artifacts_def ex_ts_index_def)
  from c1 1 mem c2 2 c3 3 idx show ?thesis
    by (intro conjI)
qed

end
